theory Spec2Isabelle
  imports Main
begin

section \<open>Runtime values\<close>

text \<open>
  The two source files are \<^verbatim>\<open>src/custom/backend.ts\<close> (the store on the file system) and
  \<^verbatim>\<open>src/custom/cache.ts\<close> (validation, restore and save). A JavaScript string is a
  \<open>string\<close> here, one \<open>char\<close> for one code unit, so \<open>length\<close> is \<^verbatim>\<open>key.length\<close>.

  A message built by a template literal is kept as the list of its pieces: the literal
  text (\<open>Lit\<close>) and the interpolated values, a string (\<open>Str\<close>), a number (\<open>Num\<close>), the
  array given to \<^verbatim>\<open>JSON.stringify\<close> (\<open>Json\<close>), a value that may be \<^verbatim>\<open>undefined\<close> (\<open>Opt\<close>)
  and a caught error interpolated whole (\<open>Thrown\<close>). An error object has its \<^verbatim>\<open>name\<close>
  and its \<^verbatim>\<open>message\<close>. The functions of \<^verbatim>\<open>@actions/core\<close> that print a message only
  print it: they do not throw.
\<close>

datatype js_error = JsError (err_name: string) (err_message: "frag list")
  and frag =
      Lit string
    | Str string
    | Num nat
    | Json "string list"
    | Opt "string option"
    | Thrown js_error

datatype level = Debug | Info | Warning

type_synonym log_entry = "level \<times> frag list"

text \<open>What \<^verbatim>\<open>fs.stat\<close> gives back, as far as \<^verbatim>\<open>getCacheFile\<close> reads it.\<close>

record stats =
  isFile :: bool
  stat_size :: nat

record download_options =
  lookupOnly :: bool

section \<open>The platform\<close>

text \<open>
  Node's \<^verbatim>\<open>fs\<close> and \<^verbatim>\<open>path\<close> modules and the helpers of \<^verbatim>\<open>@actions/cache\<close> and
  \<^verbatim>\<open>@actions/core\<close> are not part of the repository. They are a parameter: a record of
  functions over a platform state \<open>'s\<close> (the file system, the temporary directories).
  A call that can throw returns \<open>Inl\<close> of the error.
\<close>

record 's platform =
  fs_stat :: "string \<Rightarrow> 's \<Rightarrow> js_error + stats"
  fs_mkdir :: "string \<Rightarrow> 's \<Rightarrow> (js_error + string option) \<times> 's"
  fs_copyFile :: "string \<Rightarrow> string \<Rightarrow> 's \<Rightarrow> (js_error + unit) \<times> 's"
  path_join :: "string list \<Rightarrow> string"
  path_dirname :: "string \<Rightarrow> string"
  isDebug :: bool
  getCompressionMethod :: "'s \<Rightarrow> (js_error + string) \<times> 's"
  createTempDirectory :: "'s \<Rightarrow> (js_error + string) \<times> 's"
  getCacheFileName :: "string \<Rightarrow> string"
  resolvePaths :: "string list \<Rightarrow> 's \<Rightarrow> (js_error + string list) \<times> 's"
  getArchiveFileSizeInBytes :: "string \<Rightarrow> 's \<Rightarrow> js_error + nat"
  createTar :: "string \<Rightarrow> string list \<Rightarrow> string \<Rightarrow> 's \<Rightarrow> (js_error + unit) \<times> 's"
  listTar :: "string \<Rightarrow> string \<Rightarrow> 's \<Rightarrow> (js_error + unit) \<times> 's"
  extractTar :: "string \<Rightarrow> string \<Rightarrow> 's \<Rightarrow> (js_error + unit) \<times> 's"
  unlinkFile :: "string \<Rightarrow> 's \<Rightarrow> (js_error + unit) \<times> 's"

text \<open>
  Every call of the platform is recorded with its arguments and its result. The calls
  of \<^verbatim>\<open>backend.ts\<close> on \<^verbatim>\<open>fs\<close> are the accesses to the backing store.
\<close>

datatype event =
    FsStat string "js_error + stats"
  | FsMkdir string "js_error + string option"
  | FsCopyFile string string "js_error + unit"
  | GetCompressionMethod "js_error + string"
  | CreateTempDirectory "js_error + string"
  | ResolvePaths "string list" "js_error + string list"
  | GetArchiveFileSizeInBytes string "js_error + nat"
  | CreateTar string "string list" string "js_error + unit"
  | ListTar string string "js_error + unit"
  | ExtractTar string string "js_error + unit"
  | UnlinkFile string "js_error + unit"

fun is_store_call :: "event \<Rightarrow> bool" where
  "is_store_call (FsStat _ _) = True"
| "is_store_call (FsMkdir _ _) = True"
| "is_store_call (FsCopyFile _ _ _) = True"
| "is_store_call _ = False"

text \<open>
  The world one operation runs in: the platform state, \<^verbatim>\<open>process.env\<close>, what
  \<^verbatim>\<open>core.debug\<close>, \<^verbatim>\<open>core.info\<close> and \<^verbatim>\<open>core.warning\<close> have printed, and the platform calls
  made so far.
\<close>

record 's world =
  sys :: 's
  env :: "string \<Rightarrow> string option"
  messages :: "log_entry list"
  calls :: "event list"

section \<open>Computations that may throw\<close>

type_synonym ('s, 'a) io = "'s world \<Rightarrow> (js_error + 'a) \<times> 's world"

definition io_return :: "'a \<Rightarrow> ('s, 'a) io" where
  "io_return x = (\<lambda>w. (Inr x, w))"

definition io_throw :: "js_error \<Rightarrow> ('s, 'a) io" where
  "io_throw e = (\<lambda>w. (Inl e, w))"

definition io_bind :: "('s, 'a) io \<Rightarrow> ('a \<Rightarrow> ('s, 'b) io) \<Rightarrow> ('s, 'b) io" where
  "io_bind m k = (\<lambda>w. case m w of (Inl e, w') \<Rightarrow> (Inl e, w') | (Inr x, w') \<Rightarrow> k x w')"

text \<open>\<^verbatim>\<open>try { m } catch (error) { h error }\<close>\<close>

definition io_catch :: "('s, 'a) io \<Rightarrow> (js_error \<Rightarrow> ('s, 'a) io) \<Rightarrow> ('s, 'a) io" where
  "io_catch m h = (\<lambda>w. case m w of (Inl e, w') \<Rightarrow> h e w' | (Inr x, w') \<Rightarrow> (Inr x, w'))"

text \<open>
  \<^verbatim>\<open>try { m } finally { f }\<close>: the block \<open>f\<close> runs whatever \<open>m\<close> did; the outcome is the
  one of \<open>m\<close>, unless \<open>f\<close> itself throws.
\<close>

definition io_finally :: "('s, 'a) io \<Rightarrow> ('s, unit) io \<Rightarrow> ('s, 'a) io" where
  "io_finally m f = (\<lambda>w. case m w of (r, w') \<Rightarrow>
     (case f w' of (Inl e, w'') \<Rightarrow> (Inl e, w'') | (Inr _, w'') \<Rightarrow> (r, w'')))"

definition core_log :: "level \<Rightarrow> frag list \<Rightarrow> ('s, unit) io" where
  "core_log l msg = (\<lambda>w. (Inr (), w\<lparr>messages := messages w @ [(l, msg)]\<rparr>))"

definition core_debug :: "frag list \<Rightarrow> ('s, unit) io" where
  "core_debug = core_log Debug"

definition core_info :: "frag list \<Rightarrow> ('s, unit) io" where
  "core_info = core_log Info"

definition core_warning :: "frag list \<Rightarrow> ('s, unit) io" where
  "core_warning = core_log Warning"

text \<open>A platform call, run on the platform state and recorded.\<close>

definition perform :: "('r \<Rightarrow> event) \<Rightarrow> ('s \<Rightarrow> 'r \<times> 's) \<Rightarrow> 's world \<Rightarrow> 'r \<times> 's world" where
  "perform ev f = (\<lambda>w. case f (sys w) of (r, s') \<Rightarrow>
     (r, w\<lparr>sys := s', calls := calls w @ [ev r]\<rparr>))"

definition stat_io :: "'s platform \<Rightarrow> string \<Rightarrow> ('s, stats) io" where
  "stat_io P p = perform (FsStat p) (\<lambda>s. (fs_stat P p s, s))"

definition mkdir_io :: "'s platform \<Rightarrow> string \<Rightarrow> ('s, string option) io" where
  "mkdir_io P p = perform (FsMkdir p) (fs_mkdir P p)"

definition copyFile_io :: "'s platform \<Rightarrow> string \<Rightarrow> string \<Rightarrow> ('s, unit) io" where
  "copyFile_io P src dst = perform (FsCopyFile src dst) (fs_copyFile P src dst)"

definition getCompressionMethod_io :: "'s platform \<Rightarrow> ('s, string) io" where
  "getCompressionMethod_io P = perform GetCompressionMethod (getCompressionMethod P)"

definition createTempDirectory_io :: "'s platform \<Rightarrow> ('s, string) io" where
  "createTempDirectory_io P = perform CreateTempDirectory (createTempDirectory P)"

definition resolvePaths_io :: "'s platform \<Rightarrow> string list \<Rightarrow> ('s, string list) io" where
  "resolvePaths_io P ps = perform (ResolvePaths ps) (resolvePaths P ps)"

definition getArchiveFileSizeInBytes_io :: "'s platform \<Rightarrow> string \<Rightarrow> ('s, nat) io" where
  "getArchiveFileSizeInBytes_io P p =
     perform (GetArchiveFileSizeInBytes p) (\<lambda>s. (getArchiveFileSizeInBytes P p s, s))"

definition createTar_io :: "'s platform \<Rightarrow> string \<Rightarrow> string list \<Rightarrow> string \<Rightarrow> ('s, unit) io" where
  "createTar_io P folder ps m = perform (CreateTar folder ps m) (createTar P folder ps m)"

definition listTar_io :: "'s platform \<Rightarrow> string \<Rightarrow> string \<Rightarrow> ('s, unit) io" where
  "listTar_io P a m = perform (ListTar a m) (listTar P a m)"

definition extractTar_io :: "'s platform \<Rightarrow> string \<Rightarrow> string \<Rightarrow> ('s, unit) io" where
  "extractTar_io P a m = perform (ExtractTar a m) (extractTar P a m)"

definition unlinkFile_io :: "'s platform \<Rightarrow> string \<Rightarrow> ('s, unit) io" where
  "unlinkFile_io P a = perform (UnlinkFile a) (unlinkFile P a)"

text \<open>
  \<^verbatim>\<open>path.join\<close> throws a \<^verbatim>\<open>TypeError\<close> when one of its arguments is not a string, which
  is what an unset environment variable gives.
\<close>

definition path_TypeError :: js_error where
  "path_TypeError = JsError ''TypeError''
     [Lit ''The \"path\" argument must be of type string. Received undefined'']"

definition path_join_io :: "'s platform \<Rightarrow> string option list \<Rightarrow> ('s, string) io" where
  "path_join_io P args =
     (if None \<in> set args then io_throw path_TypeError
      else io_return (path_join P (map the args)))"

text \<open>\<^verbatim>\<open>!x\<close> for a value that is a string or \<^verbatim>\<open>undefined\<close>.\<close>

fun falsy :: "string option \<Rightarrow> bool" where
  "falsy None = True"
| "falsy (Some s) = (s = [])"

section \<open>backend.ts\<close>

text \<open>
  \<open>getArchiveLocation\<close> (lines 5-16). An unset variable of \<^verbatim>\<open>process.env\<close> reads as
  \<^verbatim>\<open>undefined\<close>, here \<open>None\<close>; the casts \<^verbatim>\<open>as string\<close> check nothing at run time.
\<close>

definition getArchiveLocation :: "'s platform \<Rightarrow> ('s, string option) io" where
  "getArchiveLocation P = (\<lambda>w.
     let cacheTopDir = env w ''GHRUNNER_CACHE'' in
     if falsy cacheTopDir then
       io_bind (core_warning [Lit ''getArchiveLocation: cache not available''])
         (\<lambda>_. io_return None) w
     else
       let repo = env w ''GITHUB_REPOSITORY'';
           ref = env w ''GITHUB_REF_NAME'' in
       io_bind (path_join_io P [cacheTopDir, repo, ref]) (\<lambda>cacheDir.
       io_bind (core_debug [Lit ''getArchiveLocation: '', Str cacheDir]) (\<lambda>_.
       io_return (Some cacheDir))) w)"

text \<open>
  \<open>getCacheFile\<close> (lines 18-41). The test \<^verbatim>\<open>!archiveLocation\<close> holds for \<^verbatim>\<open>undefined\<close> and
  for the empty string.
\<close>

definition getCacheFile :: "'s platform \<Rightarrow> string \<Rightarrow> ('s, string option) io" where
  "getCacheFile P key =
     io_bind (getArchiveLocation P) (\<lambda>archiveLocation.
     case archiveLocation of
       None \<Rightarrow> io_return None
     | Some loc \<Rightarrow>
        if loc = [] then io_return None
        else
          let cacheFile = path_join P [loc, key] in
          io_catch
            (io_bind (stat_io P cacheFile) (\<lambda>fileStat.
               if isFile fileStat \<and> stat_size fileStat > 0 then
                 io_bind (core_debug [Lit ''getCacheFile: found '', Str cacheFile]) (\<lambda>_.
                 io_return (Some cacheFile))
               else
                 io_bind (core_debug [Lit ''getCacheFile: '', Str cacheFile, Lit '' not found'']) (\<lambda>_.
                 io_return None)))
            (\<lambda>error.
               io_bind (core_debug [Lit ''getCacheFile: '', Thrown error]) (\<lambda>_.
               io_bind (core_debug [Lit ''getCacheFile: '', Str cacheFile, Lit '' not found'']) (\<lambda>_.
               io_return None))))"

definition downloadCache :: "'s platform \<Rightarrow> string \<Rightarrow> string \<Rightarrow> ('s, unit) io" where
  "downloadCache P cacheFile archivePath = copyFile_io P cacheFile archivePath"

text \<open>
  \<^verbatim>\<open>saveCache\<close> of \<^verbatim>\<open>backend.ts\<close> (lines 50-67). It returns nothing, and it catches what
  \<^verbatim>\<open>fs.mkdir\<close> and \<^verbatim>\<open>fs.copyFile\<close> throw.
\<close>

definition backend_saveCache :: "'s platform \<Rightarrow> string \<Rightarrow> string \<Rightarrow> ('s, unit) io" where
  "backend_saveCache P key archivePath =
     io_bind (getArchiveLocation P) (\<lambda>archiveLocation.
     case archiveLocation of
       None \<Rightarrow> io_return ()
     | Some loc \<Rightarrow>
        if loc = [] then io_return ()
        else
          let cacheFile = path_join P [loc, key] in
          io_catch
            (io_bind (mkdir_io P (path_dirname P cacheFile)) (\<lambda>dir.
             io_bind (core_debug [Lit ''saveCache: dir created: '', Opt dir]) (\<lambda>_.
             io_bind (copyFile_io P archivePath cacheFile) (\<lambda>_.
             core_debug [Lit ''saveCache: saved '', Str archivePath, Lit '' to '', Str cacheFile]))))
            (\<lambda>error. core_warning [Lit ''saveCache: failed to save archive: '', Thrown error]))"

section \<open>cache.ts\<close>

definition CacheFileSizeLimit :: nat where
  "CacheFileSizeLimit = 10 * 1024 ^ 3"

definition isFeatureAvailable :: "'s world \<Rightarrow> bool" where
  "isFeatureAvailable w = (\<not> falsy (env w ''GHRUNNER_CACHE''))"

text \<open>\<^verbatim>\<open>new ValidationError(message)\<close>: the constructor sets the name.\<close>

definition ValidationError :: "frag list \<Rightarrow> js_error" where
  "ValidationError message = JsError ''ValidationError'' message"

text \<open>\<^verbatim>\<open>new Error(message)\<close>\<close>

definition Error :: "frag list \<Rightarrow> js_error" where
  "Error message = JsError ''Error'' message"

definition checkPaths :: "string list \<Rightarrow> ('s, unit) io" where
  "checkPaths paths =
     (if length paths = 0 then
        io_throw (ValidationError
          [Lit ''Path Validation Error: At least one directory or file path is required''])
      else io_return ())"

text \<open>
  The regular expression \<^verbatim>\<open>/^[^,]*$/\<close> matches exactly the keys that have no comma, so
  \<^verbatim>\<open>!regex.test(key)\<close> says that the key has one.
\<close>

definition checkKey :: "string \<Rightarrow> ('s, unit) io" where
  "checkKey key =
     (if length key > 512 then
        io_throw (ValidationError
          [Lit ''Key Validation Error: '', Str key, Lit '' cannot be larger than 512 characters.''])
      else if CHR '','' \<in> set key then
        io_throw (ValidationError
          [Lit ''Key Validation Error: '', Str key, Lit '' cannot contain commas.''])
      else io_return ())"

text \<open>The loop \<^verbatim>\<open>for (const key of keys) { checkKey(key); }\<close>\<close>

fun checkKeys :: "string list \<Rightarrow> ('s, unit) io" where
  "checkKeys [] = io_return ()"
| "checkKeys (key # keys) = io_bind (checkKey key) (\<lambda>_. checkKeys keys)"

text \<open>
  \<^verbatim>\<open>Math.round(n / (1024 * 1024))\<close> for a size \<open>n\<close> in bytes: the quotient by a power of
  two is exact, and \<^verbatim>\<open>Math.round\<close> rounds a half upwards.
\<close>

definition round_MB :: "nat \<Rightarrow> nat" where
  "round_MB n = (n + 512 * 1024) div (1024 * 1024)"

text \<open>The message of the error thrown at line 186 of \<^verbatim>\<open>cache.ts\<close> for an archive of \<open>n\<close> bytes.\<close>

definition over_limit_message :: "nat \<Rightarrow> frag list" where
  "over_limit_message n =
     [Lit ''Cache size of ~'', Num (round_MB n), Lit '' MB ('',
      Num n, Lit '' B) is over the '', Num (round_MB CacheFileSizeLimit),
      Lit '' MB ('', Num CacheFileSizeLimit, Lit '' B) limit, not saving cache.'']"

text \<open>\<^verbatim>\<open>options?.lookupOnly\<close>\<close>

fun lookupOnly_requested :: "download_options option \<Rightarrow> bool" where
  "lookupOnly_requested None = False"
| "lookupOnly_requested (Some opts) = lookupOnly opts"

text \<open>
  The last block of both operations (lines 128-133 and 206-211):
  \<^verbatim>\<open>try { await utils.unlinkFile(archivePath) } catch (error) { core.debug(...) }\<close>
\<close>

definition delete_archive :: "'s platform \<Rightarrow> string \<Rightarrow> ('s, unit) io" where
  "delete_archive P archivePath =
     io_catch (unlinkFile_io P archivePath)
       (\<lambda>error. core_debug [Lit ''Failed to delete archive: '', Thrown error])"

text \<open>The \<^verbatim>\<open>try\<close> block of \<^verbatim>\<open>restoreCache\<close> with its \<^verbatim>\<open>catch\<close> (lines 105-126).\<close>

definition restore_download ::
  "'s platform \<Rightarrow> string \<Rightarrow> string \<Rightarrow> string \<Rightarrow> string \<Rightarrow> ('s, string option) io" where
  "restore_download P cacheFile archivePath compressionMethod primaryKey =
     io_catch
       (io_bind (downloadCache P cacheFile archivePath) (\<lambda>_.
        io_bind (getArchiveFileSizeInBytes_io P archivePath) (\<lambda>archiveFileSize.
        io_bind (core_info [Lit ''Cache Size: ~'', Num (round_MB archiveFileSize), Lit '' MB ('',
                            Num archiveFileSize, Lit '' B)'']) (\<lambda>_.
        io_bind (if isDebug P then listTar_io P archivePath compressionMethod
                 else io_return ()) (\<lambda>_.
        io_bind (extractTar_io P archivePath compressionMethod) (\<lambda>_.
        io_bind (core_info [Lit ''Cache restored successfully'']) (\<lambda>_.
        io_return (Some primaryKey))))))))
       (\<lambda>error.
        io_bind (core_warning (Lit ''Failed to restore: '' # err_message error)) (\<lambda>_.
        io_return None))"

text \<open>
  \<open>restoreCache\<close> (lines 61-137). The parameter \<^verbatim>\<open>enableCrossOsArchive\<close> is not read by
  the function and is left out. First \<^verbatim>\<open>restoreKeys || []\<close>:
\<close>

fun or_empty :: "string list option \<Rightarrow> string list" where
  "or_empty None = []"
| "or_empty (Some restoreKeys) = restoreKeys"

definition restoreCache ::
  "'s platform \<Rightarrow> string list \<Rightarrow> string \<Rightarrow> string list option \<Rightarrow>
   download_options option \<Rightarrow> ('s, string option) io" where
  "restoreCache P paths primaryKey restoreKeys0 options =
     io_bind (checkPaths paths) (\<lambda>_.
     let restoreKeys = or_empty restoreKeys0;
         keys = primaryKey # restoreKeys in
     io_bind (core_debug [Lit ''Resolved Keys:'']) (\<lambda>_.
     io_bind (core_debug [Json keys]) (\<lambda>_.
     if length keys > 10 then
       io_throw (ValidationError
         [Lit ''Key Validation Error: Keys are limited to a maximum of 10.''])
     else
     io_bind (checkKeys keys) (\<lambda>_.
     io_bind (getCacheFile P primaryKey) (\<lambda>cacheFile.
     if falsy cacheFile then
       io_bind (core_debug [Lit ''Cache not found for key: '', Str primaryKey]) (\<lambda>_.
       io_return None)
     else
     io_bind (core_info [Lit ''Cache hit for: '', Str primaryKey]) (\<lambda>_.
     if lookupOnly_requested options then
       io_bind (core_info [Lit ''Lookup only - skipping download'']) (\<lambda>_.
       io_return (Some primaryKey))
     else
     io_bind (getCompressionMethod_io P) (\<lambda>compressionMethod.
     io_bind (createTempDirectory_io P) (\<lambda>tempDirectory.
     let archivePath = path_join P [tempDirectory, getCacheFileName P compressionMethod] in
     io_bind (core_debug [Lit ''Archive Path: '', Str archivePath]) (\<lambda>_.
     io_finally
       (restore_download P (the cacheFile) archivePath compressionMethod primaryKey)
       (delete_archive P archivePath))))))))))"

text \<open>
  The \<^verbatim>\<open>try\<close> block of \<^verbatim>\<open>saveCache\<close> with its \<^verbatim>\<open>catch\<close> (lines 176-204). Its value is
  the \<^verbatim>\<open>cacheId\<close> the function goes on with: 1 when the block ends, the initial -1
  when an error is caught and only logged.
\<close>

definition save_archive ::
  "'s platform \<Rightarrow> string \<Rightarrow> string \<Rightarrow> string \<Rightarrow> string list \<Rightarrow> string \<Rightarrow> ('s, int) io" where
  "save_archive P key archiveFolder archivePath cachePaths compressionMethod =
     io_catch
       (io_bind (createTar_io P archiveFolder cachePaths compressionMethod) (\<lambda>_.
        io_bind (if isDebug P then listTar_io P archivePath compressionMethod
                 else io_return ()) (\<lambda>_.
        io_bind (getArchiveFileSizeInBytes_io P archivePath) (\<lambda>archiveFileSize.
        io_bind (core_debug [Lit ''File Size: '', Num archiveFileSize]) (\<lambda>_.
        if archiveFileSize > CacheFileSizeLimit then
          io_throw (Error (over_limit_message archiveFileSize))
        else
        io_bind (backend_saveCache P key archivePath) (\<lambda>_.
        io_return 1))))))
       (\<lambda>error.
        if err_name error = ''ValidationError'' then io_throw error
        else
          io_bind (core_warning (Lit ''Failed to save: '' # err_message error)) (\<lambda>_.
          io_return (- 1)))"

text \<open>
  \<open>saveCache\<close> (lines 149-215). The parameters \<^verbatim>\<open>options\<close> and \<^verbatim>\<open>enableCrossOsArchive\<close>
  are not read by the function and are left out.
\<close>

definition saveCache :: "'s platform \<Rightarrow> string list \<Rightarrow> string \<Rightarrow> ('s, int) io" where
  "saveCache P paths key =
     io_bind (checkPaths paths) (\<lambda>_.
     io_bind (checkKey key) (\<lambda>_.
     io_bind (getCompressionMethod_io P) (\<lambda>compressionMethod.
     io_bind (resolvePaths_io P paths) (\<lambda>cachePaths.
     io_bind (core_debug [Lit ''Cache Paths:'']) (\<lambda>_.
     io_bind (core_debug [Json cachePaths]) (\<lambda>_.
     if length cachePaths = 0 then
       io_throw (Error
         [Lit ''Path Validation Error: Path(s) specified in the action for caching do(es) not exist, hence no cache is being saved.''])
     else
     io_bind (createTempDirectory_io P) (\<lambda>archiveFolder.
     let archivePath = path_join P [archiveFolder, getCacheFileName P compressionMethod] in
     io_bind (core_debug [Lit ''Archive Path: '', Str archivePath]) (\<lambda>_.
     io_finally
       (save_archive P key archiveFolder archivePath cachePaths compressionMethod)
       (delete_archive P archivePath)))))))))"

section \<open>What one run adds\<close>

text \<open>The platform calls and the messages a run from \<open>w\<close> to \<open>w'\<close> has added.\<close>

definition new_calls :: "'s world \<Rightarrow> 's world \<Rightarrow> event list" where
  "new_calls w w' = drop (length (calls w)) (calls w')"

definition new_messages :: "'s world \<Rightarrow> 's world \<Rightarrow> log_entry list" where
  "new_messages w w' = drop (length (messages w)) (messages w')"

text \<open>
  The two places \<^verbatim>\<open>saveCache\<close> of \<^verbatim>\<open>backend.ts\<close> writes to: the directory it makes and
  the file it copies the archive to.
\<close>

fun store_write_at :: "string \<Rightarrow> string \<Rightarrow> event \<Rightarrow> bool" where
  "store_write_at dir file (FsMkdir d _) = (d = dir)"
| "store_write_at dir file (FsCopyFile _ dst _) = (dst = file)"
| "store_write_at dir file _ = False"

section \<open>A platform in memory\<close>

text \<open>
  A small platform on which the operations run on concrete inputs: the platform state
  is the list of the files with their sizes, \<open>createTar\<close> writes an archive of \<open>n\<close> bytes,
  paths are joined with a slash.
\<close>

definition ENOENT :: js_error where
  "ENOENT = JsError ''Error'' [Lit ''ENOENT: no such file or directory'']"

definition EACCES :: js_error where
  "EACCES = JsError ''Error'' [Lit ''EACCES: permission denied'']"

fun join_segments :: "string list \<Rightarrow> string" where
  "join_segments [] = []"
| "join_segments [x] = x"
| "join_segments (x # y # ys) = x @ ''/'' @ join_segments (y # ys)"

definition mem_path_join :: "string list \<Rightarrow> string" where
  "mem_path_join xs =
     (let ys = filter (\<lambda>x. x \<noteq> []) xs in if ys = [] then ''.'' else join_segments ys)"

definition mem_path_dirname :: "string \<Rightarrow> string" where
  "mem_path_dirname p = rev (drop 1 (dropWhile (\<lambda>c. c \<noteq> CHR ''/'') (rev p)))"

definition mem_platform :: "nat \<Rightarrow> (string \<times> nat) list platform" where
  "mem_platform n =
     \<lparr> fs_stat = (\<lambda>p s. case map_of s p of None \<Rightarrow> Inl ENOENT
                        | Some k \<Rightarrow> Inr \<lparr>isFile = True, stat_size = k\<rparr>),
       fs_mkdir = (\<lambda>p s. (Inr None, s)),
       fs_copyFile = (\<lambda>src dst s. case map_of s src of None \<Rightarrow> (Inl ENOENT, s)
                        | Some k \<Rightarrow> (Inr (), (dst, k) # s)),
       path_join = mem_path_join,
       path_dirname = mem_path_dirname,
       isDebug = False,
       getCompressionMethod = (\<lambda>s. (Inr ''gzip'', s)),
       createTempDirectory = (\<lambda>s. (Inr ''/tmp/a'', s)),
       getCacheFileName = (\<lambda>m. ''cache.tgz''),
       resolvePaths = (\<lambda>ps s. (Inr ps, s)),
       getArchiveFileSizeInBytes = (\<lambda>p s. case map_of s p of None \<Rightarrow> Inl ENOENT
                        | Some k \<Rightarrow> Inr k),
       createTar = (\<lambda>folder ps m s. (Inr (), (mem_path_join [folder, ''cache.tgz''], n) # s)),
       listTar = (\<lambda>a m s. (Inr (), s)),
       extractTar = (\<lambda>a m s. (Inr (), s)),
       unlinkFile = (\<lambda>a s. case map_of s a of None \<Rightarrow> (Inl ENOENT, s)
                        | Some k \<Rightarrow> (Inr (), filter (\<lambda>f. fst f \<noteq> a) s)) \<rparr>"

definition mem_world :: "(string \<times> string) list \<Rightarrow> (string \<times> nat) list \<Rightarrow> (string \<times> nat) list world" where
  "mem_world vars files = \<lparr> sys = files, env = map_of vars, messages = [], calls = [] \<rparr>"

definition runner_env :: "(string \<times> string) list" where
  "runner_env = [(''GHRUNNER_CACHE'', ''/cache''), (''GITHUB_REPOSITORY'', ''o/r''),
                 (''GITHUB_REF_NAME'', ''main'')]"

section \<open>Running the model\<close>

lemmas io_defs = io_return_def io_throw_def io_bind_def io_catch_def io_finally_def
  core_log_def core_debug_def core_info_def core_warning_def perform_def Let_def

lemmas call_defs = stat_io_def mkdir_io_def copyFile_io_def getCompressionMethod_io_def
  createTempDirectory_io_def resolvePaths_io_def getArchiveFileSizeInBytes_io_def
  createTar_io_def listTar_io_def extractTar_io_def unlinkFile_io_def path_join_io_def

lemmas mem_defs = mem_platform_def mem_world_def runner_env_def mem_path_join_def
  mem_path_dirname_def ENOENT_def EACCES_def

lemmas prog_defs = restoreCache_def saveCache_def restore_download_def save_archive_def
  delete_archive_def getCacheFile_def getArchiveLocation_def backend_saveCache_def
  downloadCache_def checkPaths_def checkKey_def ValidationError_def Error_def
  CacheFileSizeLimit_def round_MB_def over_limit_message_def isFeatureAvailable_def
  path_TypeError_def new_calls_def new_messages_def

text \<open>One step of a run, read backwards from its outcome.\<close>

lemma io_bindE:
  assumes "io_bind m k w = (r, w')"
  obtains (throws) e where "m w = (Inl e, w')" "r = Inl e"
    | (returns) x w1 where "m w = (Inr x, w1)" "k x w1 = (r, w')"
  using assms by (auto simp: io_bind_def split: prod.splits sum.splits)

lemma io_catchE:
  assumes "io_catch m h w = (r, w')"
  obtains (caught) e w1 where "m w = (Inl e, w1)" "h e w1 = (r, w')"
    | (returns) x where "m w = (Inr x, w')" "r = Inr x"
  using assms by (auto simp: io_catch_def split: prod.splits sum.splits)

lemma io_finallyE:
  assumes "io_finally m f w = (r, w')"
  obtains (throws) r1 w1 e where "m w = (r1, w1)" "f w1 = (Inl e, w')" "r = Inl e"
    | (returns) w1 where "m w = (r, w1)" "f w1 = (Inr (), w')"
  using assms by (auto simp: io_finally_def split: prod.splits sum.splits)

lemma io_returnE:
  assumes "io_return x w = (r, w')"
  obtains "r = Inr x" "w' = w"
  using assms by (auto simp: io_return_def)

lemma io_throwE:
  assumes "io_throw e w = (r, w')"
  obtains "r = Inl e" "w' = w"
  using assms by (auto simp: io_throw_def)

lemma core_logE:
  assumes "core_log l msg w = (r, w')"
  obtains "r = Inr ()" "w' = w\<lparr>messages := messages w @ [(l, msg)]\<rparr>"
  using assms by (auto simp: core_log_def)

lemma performE:
  assumes "perform ev f w = (r, w')"
  obtains s' where "f (sys w) = (r, s')" "w' = w\<lparr>sys := s', calls := calls w @ [ev r]\<rparr>"
  using assms by (auto simp: perform_def split: prod.splits)

lemmas io_elims = io_bindE io_catchE io_finallyE io_returnE io_throwE core_logE performE

lemmas log_defs = core_debug_def core_info_def core_warning_def

subsection \<open>Validation\<close>

lemma checkPaths_run:
  "checkPaths paths w =
     (if paths = [] then Inl (ValidationError
        [Lit ''Path Validation Error: At least one directory or file path is required''])
      else Inr (), w)"
  by (simp add: checkPaths_def io_return_def io_throw_def)

lemma checkKey_ok:
  "length key \<le> 512 \<Longrightarrow> CHR '','' \<notin> set key \<Longrightarrow> checkKey key w = (Inr (), w)"
  by (auto simp: checkKey_def io_return_def)

lemma checkKey_bad:
  "512 < length key \<or> CHR '','' \<in> set key \<Longrightarrow>
     \<exists>e. checkKey key w = (Inl e, w) \<and> err_name e = ''ValidationError''"
  by (auto simp: checkKey_def io_throw_def ValidationError_def)

lemma checkKey_cases:
  "checkKey key w = (Inr (), w) \<or>
   (\<exists>e. checkKey key w = (Inl e, w) \<and> err_name e = ''ValidationError'')"
  by (auto simp: checkKey_def io_throw_def io_return_def ValidationError_def)

lemma checkKeys_ok:
  "\<forall>k \<in> set keys. length k \<le> 512 \<and> CHR '','' \<notin> set k \<Longrightarrow> checkKeys keys w = (Inr (), w)"
  by (induction keys) (simp_all add: io_return_def io_bind_def checkKey_ok)

lemma checkKeys_bad:
  "key \<in> set keys \<Longrightarrow> 512 < length key \<or> CHR '','' \<in> set key \<Longrightarrow>
     \<exists>e. checkKeys keys w = (Inl e, w) \<and> err_name e = ''ValidationError''"
proof (induction keys)
  case Nil
  then show ?case by simp
next
  case (Cons k ks)
  consider (ok) "checkKey k w = (Inr (), w)"
    | (bad) e where "checkKey k w = (Inl e, w)" "err_name e = ''ValidationError''"
    using checkKey_cases [of k w] by blast
  then show ?case
  proof cases
    case ok
    with Cons.prems checkKey_bad [of k w] have "key \<in> set ks" by auto
    with Cons ok show ?thesis by (simp add: io_bind_def)
  next
    case bad
    then show ?thesis by (simp add: io_bind_def)
  qed
qed

lemma checkKeys_run:
  "checkKeys keys w = (r, w') \<Longrightarrow>
     w' = w \<and> (r = Inr () \<or> (\<exists>e. r = Inl e \<and> err_name e = ''ValidationError''))"
proof (induction keys)
  case Nil
  then show ?case by (simp add: io_return_def)
next
  case (Cons k ks)
  from Cons.prems show ?case
    using checkKey_cases [of k w] Cons.IH by (auto simp: io_bind_def)
qed

subsection \<open>The store\<close>

lemma getArchiveLocation_unavailable:
  "falsy (env w ''GHRUNNER_CACHE'') \<Longrightarrow>
     getArchiveLocation P w =
       (Inr None, w\<lparr>messages := messages w @
          [(Warning, [Lit ''getArchiveLocation: cache not available''])]\<rparr>)"
  by (simp add: getArchiveLocation_def io_defs)

lemma getArchiveLocation_run:
  assumes "getArchiveLocation P w = (r, w')"
  shows "calls w' = calls w \<and> sys w' = sys w \<and> env w' = env w
     \<and> (\<exists>ms. messages w' = messages w @ ms)"
  using assms
  unfolding getArchiveLocation_def call_defs log_defs Let_def
  by (auto elim!: io_elims split: if_splits)

lemma getArchiveLocation_env:
  "env w1 = env w \<Longrightarrow> fst (getArchiveLocation P w1) = fst (getArchiveLocation P w)"
  by (simp add: getArchiveLocation_def io_defs path_join_io_def)

lemma getArchiveLocation_None_iff:
  "fst (getArchiveLocation P w) = Inr None \<longleftrightarrow> falsy (env w ''GHRUNNER_CACHE'')"
  by (simp add: getArchiveLocation_def io_defs path_join_io_def)

lemma getCacheFile_unavailable:
  "falsy (env w ''GHRUNNER_CACHE'') \<Longrightarrow>
     getCacheFile P key w =
       (Inr None, w\<lparr>messages := messages w @
          [(Warning, [Lit ''getArchiveLocation: cache not available''])]\<rparr>)"
  by (simp add: getCacheFile_def getArchiveLocation_unavailable io_bind_def io_return_def)

lemma getArchiveLocation_available:
  assumes "fst (getArchiveLocation P w) = Inr (Some loc)"
  shows "getArchiveLocation P w =
     (Inr (Some loc), w\<lparr>messages := messages w @
        [(Debug, [Lit ''getArchiveLocation: '', Str loc])]\<rparr>)"
  using assms
  by (auto simp: getArchiveLocation_def io_defs path_join_io_def split: if_splits)

lemma getCacheFile_available:
  assumes "fst (getArchiveLocation P w) = Inr (Some loc)" and "loc \<noteq> []"
  shows "getCacheFile P key w =
     (Inr (if (\<exists>st. fs_stat P (path_join P [loc, key]) (sys w) = Inr st
                 \<and> isFile st \<and> 0 < stat_size st)
           then Some (path_join P [loc, key]) else None),
      w\<lparr>calls := calls w @ [FsStat (path_join P [loc, key])
                              (fs_stat P (path_join P [loc, key]) (sys w))],
        messages := messages w @
          (Debug, [Lit ''getArchiveLocation: '', Str loc]) #
          (case fs_stat P (path_join P [loc, key]) (sys w) of
             Inl e \<Rightarrow> [(Debug, [Lit ''getCacheFile: '', Thrown e]),
                       (Debug, [Lit ''getCacheFile: '', Str (path_join P [loc, key]),
                                Lit '' not found''])]
           | Inr st \<Rightarrow>
               if isFile st \<and> 0 < stat_size st
               then [(Debug, [Lit ''getCacheFile: found '', Str (path_join P [loc, key])])]
               else [(Debug, [Lit ''getCacheFile: '', Str (path_join P [loc, key]),
                              Lit '' not found''])])\<rparr>)"
proof (cases "fs_stat P (path_join P [loc, key]) (sys w)")
  case (Inl e)
  then show ?thesis
    using assms(2)
    by (simp add: getCacheFile_def io_defs stat_io_def getArchiveLocation_available [OF assms(1)])
next
  case (Inr st)
  then show ?thesis
    using assms(2)
    by (simp add: getCacheFile_def io_defs stat_io_def getArchiveLocation_available [OF assms(1)])
qed

lemma getCacheFile_run:
  assumes "getCacheFile P key w = (r, w')"
  shows "\<exists>evs ms. calls w' = calls w @ evs \<and> messages w' = messages w @ ms \<and> env w' = env w
     \<and> (\<forall>c \<in> set evs. \<exists>p u. c = FsStat p u)"
proof -
  obtain r0 w0 where g: "getArchiveLocation P w = (r0, w0)"
    by (cases "getArchiveLocation P w")
  from getArchiveLocation_run [OF g] obtain ms0 where
    w0: "calls w0 = calls w" "env w0 = env w" "messages w0 = messages w @ ms0" by blast
  show ?thesis
    using assms w0 unfolding getCacheFile_def
    by (auto elim!: io_elims simp: g call_defs log_defs Let_def split: if_splits option.splits)
qed

lemma backend_saveCache_run:
  assumes "backend_saveCache P key a w = (r, w')"
  shows "\<exists>evs ms. calls w' = calls w @ evs \<and> messages w' = messages w @ ms \<and> env w' = env w
     \<and> (\<forall>c \<in> set evs. is_store_call c)
     \<and> (evs \<noteq> [] \<longrightarrow> (\<exists>loc. fst (getArchiveLocation P w) = Inr (Some loc) \<and> loc \<noteq> []
           \<and> (\<forall>c \<in> set evs. store_write_at (path_dirname P (path_join P [loc, key]))
                   (path_join P [loc, key]) c)))"
proof -
  obtain r0 w0 where g: "getArchiveLocation P w = (r0, w0)"
    by (cases "getArchiveLocation P w")
  from getArchiveLocation_run [OF g] obtain ms0 where
    w0: "calls w0 = calls w" "env w0 = env w" "messages w0 = messages w @ ms0" by blast
  show ?thesis
    using assms w0 unfolding backend_saveCache_def
    by (auto elim!: io_elims simp: g call_defs log_defs Let_def split: if_splits option.splits)
qed

lemma delete_archive_run:
  assumes "delete_archive P a w = (r, w')"
  shows "r = Inr () \<and> env w' = env w \<and> (\<exists>u. calls w' = calls w @ [UnlinkFile a u] \<and>
     messages w' = messages w @
       (case u of Inl e \<Rightarrow> [(Debug, [Lit ''Failed to delete archive: '', Thrown e])]
        | Inr _ \<Rightarrow> []))"
  using assms
  unfolding delete_archive_def call_defs log_defs
  by (auto elim!: io_elims)

text \<open>The same with the platform state: it is the one \<open>unlinkFile\<close> has left.\<close>

lemma delete_archive_state:
  assumes "delete_archive P a w = (r, w')"
  shows "r = Inr () \<and> env w' = env w \<and> (\<exists>u. unlinkFile P a (sys w) = (u, sys w') \<and>
     calls w' = calls w @ [UnlinkFile a u] \<and>
     messages w' = messages w @
       (case u of Inl e \<Rightarrow> [(Debug, [Lit ''Failed to delete archive: '', Thrown e])]
        | Inr _ \<Rightarrow> []))"
  using assms
  unfolding delete_archive_def call_defs log_defs
  by (auto elim!: io_elims)

subsection \<open>Saving\<close>

lemma backend_saveCache_no_size:
  assumes "backend_saveCache P key a w = (r, w')"
  shows "\<exists>evs ms. calls w' = calls w @ evs \<and> messages w' = messages w @ ms
     \<and> (\<forall>a' u. GetArchiveFileSizeInBytes a' u \<notin> set evs)
     \<and> (\<forall>f c m u. CreateTar f c m u \<notin> set evs)"
  using backend_saveCache_run [OF assms] by fastforce

lemma save_archive_over_limit:
  assumes "save_archive P key folder a cps cm w = (r, w')"
  shows "\<exists>evs ms. calls w' = calls w @ evs \<and> messages w' = messages w @ ms
     \<and> (\<forall>a' n. GetArchiveFileSizeInBytes a' (Inr n) \<in> set evs \<and> CacheFileSizeLimit < n \<longrightarrow>
           r = Inr (- 1) \<and> (Warning, Lit ''Failed to save: '' # over_limit_message n) \<in> set ms
           \<and> (\<forall>c \<in> set evs. \<not> is_store_call c))"
  using assms unfolding save_archive_def
  by (auto elim!: io_elims dest!: backend_saveCache_no_size
        simp: call_defs log_defs Error_def split: if_splits)

lemma saveCache_over_limit:
  assumes "saveCache P paths key w = (r, w')"
  shows "\<exists>evs ms. calls w' = calls w @ evs \<and> messages w' = messages w @ ms
     \<and> (\<forall>a' n. GetArchiveFileSizeInBytes a' (Inr n) \<in> set evs \<and> CacheFileSizeLimit < n \<longrightarrow>
           r = Inr (- 1) \<and> (Warning, Lit ''Failed to save: '' # over_limit_message n) \<in> set ms
           \<and> (\<forall>c \<in> set evs. \<not> is_store_call c))"
  using assms unfolding saveCache_def
  by (auto elim!: io_elims dest!: save_archive_over_limit delete_archive_run
        simp: call_defs log_defs checkPaths_def checkKey_def Let_def
        split: if_splits)

text \<open>Where a save writes: only \<^verbatim>\<open>backend.saveCache\<close> touches the store.\<close>

lemma backend_saveCache_store:
  assumes "backend_saveCache P key a w = (r, w')" and "env w = E"
  shows "\<exists>evs. calls w' = calls w @ evs \<and> env w' = E
     \<and> (\<forall>c \<in> set evs. \<exists>loc w0. env w0 = E \<and> fst (getArchiveLocation P w0) = Inr (Some loc)
            \<and> loc \<noteq> []
            \<and> store_write_at (path_dirname P (path_join P [loc, key])) (path_join P [loc, key]) c)"
  using backend_saveCache_run [OF assms(1)] assms(2) by fastforce

lemma save_archive_store:
  assumes "save_archive P key folder a cps cm w = (r, w')" and "env w = E"
  shows "\<exists>evs. calls w' = calls w @ evs \<and> env w' = E
     \<and> (\<forall>c \<in> set evs. is_store_call c \<longrightarrow>
           (\<exists>loc w0. env w0 = E \<and> fst (getArchiveLocation P w0) = Inr (Some loc) \<and> loc \<noteq> []
             \<and> store_write_at (path_dirname P (path_join P [loc, key])) (path_join P [loc, key]) c))"
  using assms unfolding save_archive_def
  apply (auto elim!: io_elims simp: call_defs log_defs Error_def split: if_splits)
  apply (drule backend_saveCache_store, simp, fastforce)+
  done


lemma saveCache_store:
  assumes "saveCache P paths key w = (r, w')"
  shows "\<exists>evs. calls w' = calls w @ evs
     \<and> (\<forall>c \<in> set evs. is_store_call c \<longrightarrow>
           (\<exists>loc. fst (getArchiveLocation P w) = Inr (Some loc) \<and> loc \<noteq> []
             \<and> store_write_at (path_dirname P (path_join P [loc, key])) (path_join P [loc, key]) c))"
proof -
  have "\<exists>evs. calls w' = calls w @ evs
     \<and> (\<forall>c \<in> set evs. is_store_call c \<longrightarrow>
           (\<exists>loc w0. env w0 = env w \<and> fst (getArchiveLocation P w0) = Inr (Some loc) \<and> loc \<noteq> []
             \<and> store_write_at (path_dirname P (path_join P [loc, key])) (path_join P [loc, key]) c))"
    using assms unfolding saveCache_def
    apply (auto elim!: io_elims dest!: delete_archive_run
        simp: call_defs log_defs checkPaths_def checkKey_def Let_def split: if_splits)
     apply (drule save_archive_store [where E = "env w"], simp, fastforce)+
    done
  then show ?thesis
    using getArchiveLocation_env [of _ w P] by metis
qed

text \<open>The end of a save: the archive is unlinked last, whatever happened.\<close>

lemma save_archive_createTar:
  assumes "save_archive P key folder a cps cm w = (r, w')"
  shows "\<exists>evs ms. calls w' = calls w @ evs \<and> messages w' = messages w @ ms
     \<and> (\<forall>f c m u. CreateTar f c m u \<in> set evs \<longrightarrow> f = folder \<and> m = cm)"
  using assms unfolding save_archive_def
  by (auto elim!: io_elims dest!: backend_saveCache_no_size
        simp: call_defs log_defs Error_def split: if_splits)

lemma saveCache_cleanup:
  assumes "saveCache P paths key w = (r, w')"
  shows "\<exists>evs ms. calls w' = calls w @ evs \<and> messages w' = messages w @ ms
     \<and> (\<forall>f c m u. CreateTar f c m u \<in> set evs \<longrightarrow>
           (\<exists>u' s0. last evs = UnlinkFile (path_join P [f, getCacheFileName P m]) u'
              \<and> unlinkFile P (path_join P [f, getCacheFileName P m]) s0 = (u', sys w')
              \<and> (\<forall>e. u' = Inl e \<longrightarrow> ms \<noteq> [] \<and>
                    last ms = (Debug, [Lit ''Failed to delete archive: '', Thrown e]))))"
  using assms unfolding saveCache_def
  by (auto elim!: io_elims dest!: save_archive_createTar delete_archive_state
        simp: call_defs log_defs checkPaths_def checkKey_def Let_def split: if_splits)
    blast+


lemma save_archive_calls:
  assumes "save_archive P key folder a cps cm w = (r, w')"
  shows "\<exists>evs. calls w' = calls w @ evs"
  using save_archive_createTar [OF assms] by blast

lemma saveCache_reaches_packaging:
  assumes "paths \<noteq> []" and "length key \<le> 512" and "CHR '','' \<notin> set key"
    and "saveCache P paths key w = (r, w')"
  shows "\<exists>u rest. calls w' = calls w @ GetCompressionMethod u # rest"
  using assms(4) assms(1-3) unfolding saveCache_def
  by (auto elim!: io_elims dest!: save_archive_calls delete_archive_run
        simp: call_defs log_defs checkPaths_def checkKey_def Let_def split: if_splits)
subsection \<open>Restoring\<close>

lemma restore_download_run:
  assumes "restore_download P cacheFile a cm primaryKey w = (r, w')"
  shows "\<exists>evs ms. calls w' = calls w @ evs \<and> messages w' = messages w @ ms
     \<and> (r = Inr (Some primaryKey) \<or> r = Inr None)
     \<and> (\<forall>src a' u. FsCopyFile src a' u \<in> set evs \<longrightarrow> a' = a)
     \<and> evs \<noteq> []"
  using assms unfolding restore_download_def downloadCache_def
  by (auto elim!: io_elims simp: call_defs log_defs split: if_splits)

lemma getCacheFile_no_copy:
  assumes "getCacheFile P key w = (r, w')"
  shows "\<exists>evs ms. calls w' = calls w @ evs \<and> messages w' = messages w @ ms
     \<and> (\<forall>src a u. FsCopyFile src a u \<notin> set evs)"
  using getCacheFile_run [OF assms] by fastforce

lemma restoreCache_cleanup:
  assumes "restoreCache P paths primaryKey restoreKeys options w = (r, w')"
  shows "\<exists>evs ms. calls w' = calls w @ evs \<and> messages w' = messages w @ ms
     \<and> (\<forall>src a u. FsCopyFile src a u \<in> set evs \<longrightarrow>
           (\<exists>u' s0. last evs = UnlinkFile a u'
              \<and> unlinkFile P a s0 = (u', sys w')
              \<and> (\<forall>e. u' = Inl e \<longrightarrow> ms \<noteq> [] \<and>
                    last ms = (Debug, [Lit ''Failed to delete archive: '', Thrown e]))))"
  using assms unfolding restoreCache_def
  by (auto elim!: io_elims
        dest!: restore_download_run delete_archive_state getCacheFile_no_copy checkKeys_run
        simp: call_defs log_defs checkPaths_def Let_def
        simp del: checkKeys.simps split: if_splits)
    blast+

lemma getArchiveLocation_upd:
  "fst (getArchiveLocation P (w\<lparr>messages := m\<rparr>)) = fst (getArchiveLocation P w)"
  "fst (getArchiveLocation P (w\<lparr>calls := c\<rparr>)) = fst (getArchiveLocation P w)"
  "fst (getArchiveLocation P (w\<lparr>sys := s\<rparr>)) = fst (getArchiveLocation P w)"
  by (rule getArchiveLocation_env, simp)+

lemma getCacheFile_probe:
  assumes "getCacheFile P key w = (r, w')"
  shows "\<exists>evs ms. calls w' = calls w @ evs \<and> messages w' = messages w @ ms
     \<and> (\<forall>loc. fst (getArchiveLocation P w) = Inr (Some loc) \<and> loc \<noteq> [] \<longrightarrow>
           evs = [FsStat (path_join P [loc, key]) (fs_stat P (path_join P [loc, key]) (sys w))])"
proof -
  from getCacheFile_run [OF assms] obtain evs ms where
    run: "calls w' = calls w @ evs" "messages w' = messages w @ ms" by blast
  have "evs = [FsStat (path_join P [loc, key]) (fs_stat P (path_join P [loc, key]) (sys w))]"
    if "fst (getArchiveLocation P w) = Inr (Some loc)" "loc \<noteq> []" for loc
  proof -
    have "calls (snd (getCacheFile P key w)) = calls w @
        [FsStat (path_join P [loc, key]) (fs_stat P (path_join P [loc, key]) (sys w))]"
      by (simp only: getCacheFile_available [OF that, of key] snd_conv) simp
    moreover have "snd (getCacheFile P key w) = w'"
      by (simp only: assms snd_conv)
    ultimately show ?thesis
      using run(1) by simp
  qed
  with run show ?thesis by blast
qed

lemma restoreCache_probes_primary:
  assumes "paths \<noteq> []"
    and "length (or_empty restoreKeys) \<le> 9"
    and "\<forall>k \<in> set (primaryKey # or_empty restoreKeys). length k \<le> 512 \<and> CHR '','' \<notin> set k"
    and "fst (getArchiveLocation P w) = Inr (Some loc)" and "loc \<noteq> []"
    and "restoreCache P paths primaryKey restoreKeys options w = (r, w')"
  shows "\<exists>rest. calls w' = calls w @
     FsStat (path_join P [loc, primaryKey]) (fs_stat P (path_join P [loc, primaryKey]) (sys w)) # rest"
proof -
  have keys: "checkKeys (primaryKey # or_empty restoreKeys) w0 = (Inr (), w0)" for w0 :: "'a world"
    using assms(3) by (rule checkKeys_ok)
  show ?thesis
    using assms(6) assms(1,2,4,5) unfolding restoreCache_def
    by (auto elim!: io_elims
        dest!: getCacheFile_probe restore_download_run delete_archive_run
        simp: keys getArchiveLocation_upd call_defs log_defs checkPaths_def Let_def
        simp del: checkKeys.simps split: if_splits)
qed

subsection \<open>The outcome does not depend on the deletion\<close>

lemma fst_finally_delete:
  "fst (io_finally m (delete_archive P a) w) = fst (m w)"
proof -
  obtain r w1 where m: "m w = (r, w1)" by (cases "m w")
  obtain r2 w2 where d: "delete_archive P a w1 = (r2, w2)" by (cases "delete_archive P a w1")
  from delete_archive_run [OF d] have "r2 = Inr ()" by simp
  with m d show ?thesis by (simp add: io_finally_def)
qed

lemma sys_finally_delete:
  "sys (snd (io_finally m (delete_archive P a) w)) = snd (unlinkFile P a (sys (snd (m w))))"
proof -
  obtain r w1 where m: "m w = (r, w1)" by (cases "m w")
  obtain r2 w2 where d: "delete_archive P a w1 = (r2, w2)" by (cases "delete_archive P a w1")
  from delete_archive_state [OF d] obtain u where
    "r2 = Inr ()" "unlinkFile P a (sys w1) = (u, sys w2)" by blast
  with m d show ?thesis by (simp add: io_finally_def)
qed

lemma io_bind_fst_cong:
  "(\<And>x w1. fst (k x w1) = fst (k' x w1)) \<Longrightarrow> fst (io_bind m k w) = fst (io_bind m k' w)"
  by (simp add: io_bind_def split: prod.splits sum.splits)

lemma unlinkFile_update:
  "getCacheFile (P\<lparr>unlinkFile := f\<rparr>) key = getCacheFile P key"
  "getCompressionMethod_io (P\<lparr>unlinkFile := f\<rparr>) = getCompressionMethod_io P"
  "createTempDirectory_io (P\<lparr>unlinkFile := f\<rparr>) = createTempDirectory_io P"
  "resolvePaths_io (P\<lparr>unlinkFile := f\<rparr>) paths = resolvePaths_io P paths"
  "restore_download (P\<lparr>unlinkFile := f\<rparr>) cacheFile a cm key = restore_download P cacheFile a cm key"
  "save_archive (P\<lparr>unlinkFile := f\<rparr>) key folder a cps cm = save_archive P key folder a cps cm"
  by (simp_all add: getCacheFile_def getArchiveLocation_def restore_download_def save_archive_def
      backend_saveCache_def downloadCache_def call_defs Let_def
      cong: if_cong option.case_cong)

lemma restoreCache_unlinkFile_update:
  "fst (restoreCache (P\<lparr>unlinkFile := f\<rparr>) paths primaryKey restoreKeys options w) =
   fst (restoreCache P paths primaryKey restoreKeys options w)"
  unfolding restoreCache_def
  by (auto intro!: io_bind_fst_cong simp: unlinkFile_update fst_finally_delete Let_def
      simp del: checkKeys.simps)

lemma saveCache_unlinkFile_update:
  "fst (saveCache (P\<lparr>unlinkFile := f\<rparr>) paths key w) = fst (saveCache P paths key w)"
  unfolding saveCache_def
  by (auto intro!: io_bind_fst_cong simp: unlinkFile_update fst_finally_delete Let_def)

subsection \<open>No store configured\<close>

lemma restoreCache_unavailable_valid:
  assumes "falsy (env w ''GHRUNNER_CACHE'')"
    and "paths \<noteq> []"
    and "length (primaryKey # or_empty restoreKeys) \<le> 10"
    and "\<forall>k \<in> set (primaryKey # or_empty restoreKeys). length k \<le> 512 \<and> CHR '','' \<notin> set k"
  shows "restoreCache P paths primaryKey restoreKeys options w =
     (Inr None, w\<lparr>messages := messages w @
        [(Debug, [Lit ''Resolved Keys:'']),
         (Debug, [Json (primaryKey # or_empty restoreKeys)]),
         (Warning, [Lit ''getArchiveLocation: cache not available'']),
         (Debug, [Lit ''Cache not found for key: '', Str primaryKey])]\<rparr>)"
proof -
  have keys: "checkKeys (primaryKey # or_empty restoreKeys) w0 = (Inr (), w0)"
    for w0 :: "'a world"
    using assms(4) by (rule checkKeys_ok)
  show ?thesis
    using assms(1-3) unfolding restoreCache_def
    by (simp add: keys io_bind_def checkPaths_run getCacheFile_unavailable core_debug_def
        core_log_def Let_def io_return_def del: checkKeys.simps)
qed

lemma saveCache_unavailable_no_store:
  assumes "falsy (env w ''GHRUNNER_CACHE'')"
  shows "\<forall>c \<in> set (new_calls w (snd (saveCache P paths key w))). \<not> is_store_call c"
proof -
  obtain r w' where run: "saveCache P paths key w = (r, w')"
    by (cases "saveCache P paths key w")
  from saveCache_store [OF run] obtain evs where
    ext: "calls w' = calls w @ evs"
    and st: "\<forall>c \<in> set evs. is_store_call c \<longrightarrow>
           (\<exists>loc. fst (getArchiveLocation P w) = Inr (Some loc) \<and> loc \<noteq> []
             \<and> store_write_at (path_dirname P (path_join P [loc, key])) (path_join P [loc, key]) c)"
    by blast
  have none: "fst (getArchiveLocation P w) = Inr None"
    using assms by (simp add: getArchiveLocation_None_iff)
  have "new_calls w w' = evs"
    by (simp add: new_calls_def ext)
  with st none show ?thesis
    by (auto simp: run)
qed

section \<open>The claims\<close>

text \<open>
  C1 (the code does not do this). The claim: restore asks the store for every key in
  order, the primary key first and then the restore keys, and the first key that has a
  blob wins. The code checks the restore keys and then calls \<open>getCacheFile\<close> for the
  primary key only. Here the store has a blob of 5 bytes under the restore key \<open>v1-\<close> and
  none under the primary key \<open>v1\<close>: the only call on the store is the \<open>stat\<close> of the
  primary key's address, and the result is \<^verbatim>\<open>undefined\<close>.
\<close>

theorem restoreCache_ignores_restoreKeys:
  "fst (restoreCache (mem_platform 100) [''dist''] ''v1'' (Some [''v1-'']) None
         (mem_world runner_env [(''/cache/o/r/main/v1-'', 5)])) = Inr None
   \<and> calls (snd (restoreCache (mem_platform 100) [''dist''] ''v1'' (Some [''v1-'']) None
         (mem_world runner_env [(''/cache/o/r/main/v1-'', 5)]))) =
       [FsStat ''/cache/o/r/main/v1'' (Inl ENOENT)]
   \<and> fs_stat (mem_platform 100) ''/cache/o/r/main/v1-'' [(''/cache/o/r/main/v1-'', 5)] =
       Inr \<lparr>isFile = True, stat_size = 5\<rparr>"
  by (simp add: prog_defs io_defs call_defs mem_defs)

text \<open>
  C2, as stated. The claim: an archive of more than 10 GiB makes \<open>saveCache\<close> fail
  with an error that reaches the caller. The error is thrown inside the \<^verbatim>\<open>try\<close> block,
  and the \<^verbatim>\<open>catch\<close> block rethrows only an error named \<open>ValidationError\<close>: this one is
  logged and \<open>saveCache\<close> returns -1. Here the archive measures one byte more than the
  limit.
\<close>

theorem saveCache_over_limit_counterexample:
  "CacheFileSizeLimit < 10737418241
   \<and> GetArchiveFileSizeInBytes ''/tmp/a/cache.tgz'' (Inr 10737418241)
       \<in> set (calls (snd (saveCache (mem_platform 10737418241) [''dist''] ''v1''
                (mem_world runner_env []))))
   \<and> fst (saveCache (mem_platform 10737418241) [''dist''] ''v1'' (mem_world runner_env [])) =
       Inr (- 1)"
  by (simp add: prog_defs io_defs call_defs mem_defs)

text \<open>
  C2, as the code has it. In every run of \<open>saveCache\<close> in which the archive is measured
  at \<open>n\<close> bytes with \<open>n\<close> above the limit, the result is -1, the warning
  \<^verbatim>\<open>Failed to save: Cache size of ~... MB (n B) is over the 10240 MB (10737418240 B) limit\<close>
  is logged, and the run makes no call on the store.
\<close>

theorem saveCache_over_limit_not_saved:
  assumes "GetArchiveFileSizeInBytes a (Inr n) \<in> set (new_calls w (snd (saveCache P paths key w)))"
    and "CacheFileSizeLimit < n"
  shows "fst (saveCache P paths key w) = Inr (- 1)
     \<and> (Warning, Lit ''Failed to save: '' # over_limit_message n)
          \<in> set (new_messages w (snd (saveCache P paths key w)))
     \<and> (\<forall>c \<in> set (new_calls w (snd (saveCache P paths key w))). \<not> is_store_call c)"
proof -
  obtain r w' where run: "saveCache P paths key w = (r, w')"
    by (cases "saveCache P paths key w")
  from saveCache_over_limit [OF run] obtain evs ms where
    ext: "calls w' = calls w @ evs" "messages w' = messages w @ ms"
    and lim: "\<forall>a' n. GetArchiveFileSizeInBytes a' (Inr n) \<in> set evs \<and> CacheFileSizeLimit < n \<longrightarrow>
           r = Inr (- 1) \<and> (Warning, Lit ''Failed to save: '' # over_limit_message n) \<in> set ms
           \<and> (\<forall>c \<in> set evs. \<not> is_store_call c)"
    by blast
  have new: "new_calls w w' = evs" "new_messages w w' = ms"
    by (simp_all add: new_calls_def new_messages_def ext)
  from assms have "GetArchiveFileSizeInBytes a (Inr n) \<in> set evs"
    by (simp add: run new)
  with lim assms(2) show ?thesis
    by (simp add: run new)
qed

theorem saveCache_over_limit_not_saved_witness:
  "CacheFileSizeLimit < 10737418241
   \<and> GetArchiveFileSizeInBytes ''/tmp/a/cache.tgz'' (Inr 10737418241)
       \<in> set (new_calls (mem_world runner_env [])
                (snd (saveCache (mem_platform 10737418241) [''dist''] ''v1''
                   (mem_world runner_env []))))
   \<and> fst (saveCache (mem_platform 10737418241) [''dist''] ''v1'' (mem_world runner_env [])) =
       Inr (- 1)
   \<and> (Warning, Lit ''Failed to save: '' # over_limit_message 10737418241)
       \<in> set (new_messages (mem_world runner_env [])
                (snd (saveCache (mem_platform 10737418241) [''dist''] ''v1''
                   (mem_world runner_env []))))
   \<and> filter is_store_call (new_calls (mem_world runner_env [])
                (snd (saveCache (mem_platform 10737418241) [''dist''] ''v1''
                   (mem_world runner_env [])))) = []"
proof -
  have size: "GetArchiveFileSizeInBytes ''/tmp/a/cache.tgz'' (Inr 10737418241)
       \<in> set (new_calls (mem_world runner_env [])
                (snd (saveCache (mem_platform 10737418241) [''dist''] ''v1''
                   (mem_world runner_env []))))"
    by (simp add: prog_defs io_defs call_defs mem_defs)
  have limit: "CacheFileSizeLimit < 10737418241"
    by (simp add: CacheFileSizeLimit_def)
  from saveCache_over_limit_not_saved [OF size limit] size limit show ?thesis
    by (simp add: filter_empty_conv)
qed

text \<open>
  C3 (the code does not do this). The claim: when the write to the store fails after
  packaging, the failure is logged as a warning and \<open>saveCache\<close> returns -1. Here
  \<^verbatim>\<open>fs.copyFile\<close> into the store fails: \<open>backend_saveCache\<close> catches the error and logs
  the warning, returns normally, and \<open>saveCache\<close> goes on to \<^verbatim>\<open>cacheId = 1\<close> and
  returns 1.
\<close>

theorem saveCache_store_failure_returns_1:
  "fst (saveCache ((mem_platform 100)\<lparr>fs_copyFile := \<lambda>src dst s. (Inl EACCES, s)\<rparr>)
         [''dist''] ''v1'' (mem_world runner_env [])) = Inr 1
   \<and> calls (snd (saveCache ((mem_platform 100)\<lparr>fs_copyFile := \<lambda>src dst s. (Inl EACCES, s)\<rparr>)
         [''dist''] ''v1'' (mem_world runner_env []))) =
       [GetCompressionMethod (Inr ''gzip''), ResolvePaths [''dist''] (Inr [''dist'']),
        CreateTempDirectory (Inr ''/tmp/a''),
        CreateTar ''/tmp/a'' [''dist''] ''gzip'' (Inr ()),
        GetArchiveFileSizeInBytes ''/tmp/a/cache.tgz'' (Inr 100),
        FsMkdir ''/cache/o/r/main'' (Inr None),
        FsCopyFile ''/tmp/a/cache.tgz'' ''/cache/o/r/main/v1'' (Inl EACCES),
        UnlinkFile ''/tmp/a/cache.tgz'' (Inr ())]
   \<and> (Warning, [Lit ''saveCache: failed to save archive: '', Thrown EACCES])
       \<in> set (messages (snd (saveCache
            ((mem_platform 100)\<lparr>fs_copyFile := \<lambda>src dst s. (Inl EACCES, s)\<rparr>)
            [''dist''] ''v1'' (mem_world runner_env []))))"
  by (simp add: prog_defs io_defs call_defs mem_defs)

text \<open>
  C4 (the code does not do this). The claim: with \<^verbatim>\<open>GHRUNNER_CACHE\<close> unset, restore
  returns no result and save returns -1, with nothing thrown and no directory made.
  Here the variable is unset and the paths and keys are valid. \<open>restoreCache\<close> returns
  \<^verbatim>\<open>undefined\<close> without a platform call. \<open>saveCache\<close> packages the paths,
  \<open>backend_saveCache\<close> finds no location, writes nothing and returns normally, and
  \<open>saveCache\<close> goes on to \<^verbatim>\<open>cacheId = 1\<close>: it makes no call on the store and returns 1.
\<close>

theorem saveCache_unavailable_returns_1:
  "falsy (env (mem_world [] []) ''GHRUNNER_CACHE'')
   \<and> fst (restoreCache (mem_platform 100) [''dist''] ''v1'' (Some [''v1-'']) None
         (mem_world [] [])) = Inr None
   \<and> calls (snd (restoreCache (mem_platform 100) [''dist''] ''v1'' (Some [''v1-'']) None
         (mem_world [] []))) = []
   \<and> fst (saveCache (mem_platform 100) [''dist''] ''v1'' (mem_world [] [])) = Inr 1
   \<and> calls (snd (saveCache (mem_platform 100) [''dist''] ''v1'' (mem_world [] []))) =
       [GetCompressionMethod (Inr ''gzip''), ResolvePaths [''dist''] (Inr [''dist'']),
        CreateTempDirectory (Inr ''/tmp/a''),
        CreateTar ''/tmp/a'' [''dist''] ''gzip'' (Inr ()),
        GetArchiveFileSizeInBytes ''/tmp/a/cache.tgz'' (Inr 100),
        UnlinkFile ''/tmp/a/cache.tgz'' (Inr ())]
   \<and> messages (snd (saveCache (mem_platform 100) [''dist''] ''v1'' (mem_world [] []))) =
       [(Debug, [Lit ''Cache Paths:'']), (Debug, [Json [''dist'']]),
        (Debug, [Lit ''Archive Path: '', Str ''/tmp/a/cache.tgz'']),
        (Debug, [Lit ''File Size: '', Num 100]),
        (Warning, [Lit ''getArchiveLocation: cache not available''])]"
  by (simp add: prog_defs io_defs call_defs mem_defs)

text \<open>
  C5. A key longer than 512 characters, or with a comma in it, makes both operations
  throw a \<open>ValidationError\<close> before the store is touched: \<open>restoreCache\<close> for such a key
  anywhere among the primary key and the restore keys, with no platform call made and
  the platform state unchanged; \<open>saveCache\<close> with the world left exactly as it was.
\<close>

theorem invalid_key_rejected_before_store:
  assumes "512 < length key \<or> CHR '','' \<in> set key"
  shows "(key \<in> set (primaryKey # or_empty restoreKeys) \<longrightarrow>
          (\<exists>e. fst (restoreCache P paths primaryKey restoreKeys options w) = Inl e
             \<and> err_name e = ''ValidationError'')
          \<and> calls (snd (restoreCache P paths primaryKey restoreKeys options w)) = calls w
          \<and> sys (snd (restoreCache P paths primaryKey restoreKeys options w)) = sys w)
       \<and> (\<exists>e. fst (saveCache P paths key w) = Inl e \<and> err_name e = ''ValidationError'')
       \<and> snd (saveCache P paths key w) = w"
proof (intro conjI impI)
  let ?keys = "primaryKey # or_empty restoreKeys"
  let ?w1 = "w\<lparr>messages := messages w @
     [(Debug, [Lit ''Resolved Keys:'']), (Debug, [Json ?keys])]\<rparr>"
  assume mem: "key \<in> set ?keys"
  obtain e where e: "checkKeys ?keys ?w1 = (Inl e, ?w1)" "err_name e = ''ValidationError''"
    using checkKeys_bad [OF mem assms] by blast
  have run: "restoreCache P paths primaryKey restoreKeys options w =
     (if paths = [] then (Inl (ValidationError
        [Lit ''Path Validation Error: At least one directory or file path is required'']), w)
      else if 10 < length ?keys then (Inl (ValidationError
        [Lit ''Key Validation Error: Keys are limited to a maximum of 10.'']), ?w1)
      else (Inl e, ?w1))"
    unfolding restoreCache_def
    by (simp add: e(1) io_bind_def checkPaths_run core_debug_def core_log_def Let_def
        io_throw_def del: checkKeys.simps)
  show "\<exists>e. fst (restoreCache P paths primaryKey restoreKeys options w) = Inl e
             \<and> err_name e = ''ValidationError''"
    using e(2) by (simp add: run ValidationError_def)
  show "calls (snd (restoreCache P paths primaryKey restoreKeys options w)) = calls w"
    by (simp add: run)
  show "sys (snd (restoreCache P paths primaryKey restoreKeys options w)) = sys w"
    by (simp add: run)
next
  obtain e where e: "checkKey key w = (Inl e, w)" "err_name e = ''ValidationError''"
    using checkKey_bad [OF assms] by blast
  have run: "saveCache P paths key w =
     (if paths = [] then (Inl (ValidationError
        [Lit ''Path Validation Error: At least one directory or file path is required'']), w)
      else (Inl e, w))"
    using e(1) by (simp add: saveCache_def io_bind_def checkPaths_run)
  show "\<exists>e. fst (saveCache P paths key w) = Inl e \<and> err_name e = ''ValidationError''"
    using e(2) by (simp add: run ValidationError_def)
  show "snd (saveCache P paths key w) = w"
    by (simp add: run)
qed

theorem invalid_key_rejected_before_store_witness:
  "(512 < length ''a,b'' \<or> CHR '','' \<in> set ''a,b'')
   \<and> ''a,b'' \<in> set (''v1'' # or_empty (Some [''v1-'', ''a,b'']))
   \<and> (\<exists>e. fst (restoreCache (mem_platform 100) [''dist''] ''v1'' (Some [''v1-'', ''a,b'']) None
               (mem_world runner_env [(''/cache/o/r/main/v1'', 5)])) = Inl e
          \<and> err_name e = ''ValidationError'')
   \<and> calls (snd (restoreCache (mem_platform 100) [''dist''] ''v1'' (Some [''v1-'', ''a,b'']) None
               (mem_world runner_env [(''/cache/o/r/main/v1'', 5)]))) = []
   \<and> (\<exists>e. fst (saveCache (mem_platform 100) [''dist''] ''a,b''
               (mem_world runner_env [(''/cache/o/r/main/v1'', 5)])) = Inl e
          \<and> err_name e = ''ValidationError'')
   \<and> calls (snd (saveCache (mem_platform 100) [''dist''] ''a,b''
               (mem_world runner_env [(''/cache/o/r/main/v1'', 5)]))) = []"
  using invalid_key_rejected_before_store [of "''a,b''" "''v1''" "Some [''v1-'', ''a,b'']"
      "mem_platform 100" "[''dist'']" None "mem_world runner_env [(''/cache/o/r/main/v1'', 5)]"]
  by (simp add: mem_world_def)

text \<open>
  C6. More than ten keys in all (the primary key and the restore keys) make
  \<open>restoreCache\<close> throw a \<open>ValidationError\<close>, for every platform and every state of the
  store, with no platform call made. An empty list of paths makes \<open>restoreCache\<close> and
  \<open>saveCache\<close> throw the same \<open>ValidationError\<close>, with the world left exactly as it was.
\<close>

theorem too_many_keys_or_no_paths_rejected:
  "(10 < length (primaryKey # or_empty restoreKeys) \<longrightarrow>
      (\<exists>e. fst (restoreCache P paths primaryKey restoreKeys options w) = Inl e
         \<and> err_name e = ''ValidationError'')
      \<and> calls (snd (restoreCache P paths primaryKey restoreKeys options w)) = calls w
      \<and> sys (snd (restoreCache P paths primaryKey restoreKeys options w)) = sys w)
   \<and> restoreCache P [] primaryKey restoreKeys options w =
       (Inl (ValidationError
          [Lit ''Path Validation Error: At least one directory or file path is required'']), w)
   \<and> saveCache P [] key w =
       (Inl (ValidationError
          [Lit ''Path Validation Error: At least one directory or file path is required'']), w)"
proof (intro conjI impI)
  let ?keys = "primaryKey # or_empty restoreKeys"
  let ?w1 = "w\<lparr>messages := messages w @
     [(Debug, [Lit ''Resolved Keys:'']), (Debug, [Json ?keys])]\<rparr>"
  assume many: "10 < length ?keys"
  have run: "restoreCache P paths primaryKey restoreKeys options w =
     (if paths = [] then (Inl (ValidationError
        [Lit ''Path Validation Error: At least one directory or file path is required'']), w)
      else (Inl (ValidationError
        [Lit ''Key Validation Error: Keys are limited to a maximum of 10.'']), ?w1))"
    using many unfolding restoreCache_def
    by (simp add: io_bind_def checkPaths_run core_debug_def core_log_def Let_def
        io_throw_def del: checkKeys.simps)
  show "\<exists>e. fst (restoreCache P paths primaryKey restoreKeys options w) = Inl e
             \<and> err_name e = ''ValidationError''"
    by (simp add: run ValidationError_def)
  show "calls (snd (restoreCache P paths primaryKey restoreKeys options w)) = calls w"
    by (simp add: run)
  show "sys (snd (restoreCache P paths primaryKey restoreKeys options w)) = sys w"
    by (simp add: run)
next
  show "restoreCache P [] primaryKey restoreKeys options w =
       (Inl (ValidationError
          [Lit ''Path Validation Error: At least one directory or file path is required'']), w)"
    by (simp add: restoreCache_def io_bind_def checkPaths_run)
  show "saveCache P [] key w =
       (Inl (ValidationError
          [Lit ''Path Validation Error: At least one directory or file path is required'']), w)"
    by (simp add: saveCache_def io_bind_def checkPaths_run)
qed

theorem too_many_keys_or_no_paths_rejected_witness:
  "10 < length (''k0'' # or_empty (Some [''k1'', ''k2'', ''k3'', ''k4'', ''k5'', ''k6'', ''k7'',
       ''k8'', ''k9'', ''k10'']))
   \<and> (\<exists>e. fst (restoreCache (mem_platform 100) [''dist''] ''k0''
         (Some [''k1'', ''k2'', ''k3'', ''k4'', ''k5'', ''k6'', ''k7'', ''k8'', ''k9'', ''k10''])
         None (mem_world runner_env [(''/cache/o/r/main/k0'', 5)])) = Inl e
       \<and> err_name e = ''ValidationError'')
   \<and> calls (snd (restoreCache (mem_platform 100) [''dist''] ''k0''
         (Some [''k1'', ''k2'', ''k3'', ''k4'', ''k5'', ''k6'', ''k7'', ''k8'', ''k9'', ''k10''])
         None (mem_world runner_env [(''/cache/o/r/main/k0'', 5)]))) = []"
  using too_many_keys_or_no_paths_rejected [of "''k0''"
      "Some [''k1'', ''k2'', ''k3'', ''k4'', ''k5'', ''k6'', ''k7'', ''k8'', ''k9'', ''k10'']"
      "mem_platform 100" "[''dist'']" None "mem_world runner_env [(''/cache/o/r/main/k0'', 5)]"]
  by (simp add: mem_world_def)

text \<open>
  C7. The check of \<open>getCacheFile\<close>, once the location of the store is known: the result
  is the address exactly when \<^verbatim>\<open>fs.stat\<close> succeeds there on a file of a size above zero.
  A file of size zero, something that is not a file, and every failure of \<^verbatim>\<open>fs.stat\<close>
  give \<^verbatim>\<open>undefined\<close>, never an error.
\<close>

theorem getCacheFile_hit_iff_nonempty_file:
  assumes "fst (getArchiveLocation P w) = Inr (Some loc)" and "loc \<noteq> []"
  shows "fst (getCacheFile P key w) =
     Inr (if (\<exists>st. fs_stat P (path_join P [loc, key]) (sys w) = Inr st
                \<and> isFile st \<and> 0 < stat_size st)
          then Some (path_join P [loc, key]) else None)"
  by (simp only: getCacheFile_available [OF assms] fst_conv)

theorem getCacheFile_hit_iff_nonempty_file_witness:
  "fst (getArchiveLocation (mem_platform 100)
      (mem_world runner_env [(''/cache/o/r/main/v1'', 5), (''/cache/o/r/main/v0'', 0)])) =
     Inr (Some ''/cache/o/r/main'')
   \<and> fst (getCacheFile (mem_platform 100) ''v1''
      (mem_world runner_env [(''/cache/o/r/main/v1'', 5), (''/cache/o/r/main/v0'', 0)])) =
     Inr (Some ''/cache/o/r/main/v1'')
   \<and> fst (getCacheFile (mem_platform 100) ''v0''
      (mem_world runner_env [(''/cache/o/r/main/v1'', 5), (''/cache/o/r/main/v0'', 0)])) =
     Inr None
   \<and> fst (getCacheFile (mem_platform 100) ''v2''
      (mem_world runner_env [(''/cache/o/r/main/v1'', 5), (''/cache/o/r/main/v0'', 0)])) =
     Inr None"
  using
    getCacheFile_hit_iff_nonempty_file [of "mem_platform 100"
      "mem_world runner_env [(''/cache/o/r/main/v1'', 5), (''/cache/o/r/main/v0'', 0)]"
      "''/cache/o/r/main''" "''v1''"]
    getCacheFile_hit_iff_nonempty_file [of "mem_platform 100"
      "mem_world runner_env [(''/cache/o/r/main/v1'', 5), (''/cache/o/r/main/v0'', 0)]"
      "''/cache/o/r/main''" "''v0''"]
    getCacheFile_hit_iff_nonempty_file [of "mem_platform 100"
      "mem_world runner_env [(''/cache/o/r/main/v1'', 5), (''/cache/o/r/main/v0'', 0)]"
      "''/cache/o/r/main''" "''v2''"]
  by (simp add: getArchiveLocation_def io_defs call_defs mem_defs)

text \<open>
  C8. The temporary archive is deleted at the end of every run that has entered the
  download and extract phase of \<open>restoreCache\<close> (the copy out of the store has been
  called) or the package and store phase of \<open>saveCache\<close> (\<open>createTar\<close> has been called):
  the last platform call of the run is \<open>unlinkFile\<close> on the archive, the platform state
  the run ends in is the one this call of \<open>unlinkFile\<close> has left, and when the call fails
  the last message is the debug line about it. For the two \<^verbatim>\<open>try\<close> blocks with their
  \<^verbatim>\<open>finally\<close>: the state at the end is what \<open>unlinkFile\<close> makes of the state the \<^verbatim>\<open>try\<close>
  and \<^verbatim>\<open>catch\<close> blocks ended in. The outcome of both operations is the same whatever
  \<open>unlinkFile\<close> does: a failed deletion is never thrown and never takes the place of the
  result.
\<close>

theorem archive_deleted_on_every_path:
  "(FsCopyFile src a u \<in> set (new_calls w
        (snd (restoreCache P paths primaryKey restoreKeys options w))) \<longrightarrow>
      (\<exists>u' s0. last (calls (snd (restoreCache P paths primaryKey restoreKeys options w))) =
              UnlinkFile a u'
         \<and> unlinkFile P a s0 =
              (u', sys (snd (restoreCache P paths primaryKey restoreKeys options w)))
         \<and> (\<forall>e. u' = Inl e \<longrightarrow>
               last (messages (snd (restoreCache P paths primaryKey restoreKeys options w))) =
               (Debug, [Lit ''Failed to delete archive: '', Thrown e]))))
   \<and> (CreateTar folder cps cm u2 \<in> set (new_calls w (snd (saveCache P paths key w))) \<longrightarrow>
      (\<exists>u' s0. last (calls (snd (saveCache P paths key w))) =
              UnlinkFile (path_join P [folder, getCacheFileName P cm]) u'
         \<and> unlinkFile P (path_join P [folder, getCacheFileName P cm]) s0 =
              (u', sys (snd (saveCache P paths key w)))
         \<and> (\<forall>e. u' = Inl e \<longrightarrow>
               last (messages (snd (saveCache P paths key w))) =
               (Debug, [Lit ''Failed to delete archive: '', Thrown e]))))
   \<and> sys (snd (io_finally (restore_download P cacheFile archivePath compressionMethod primaryKey)
          (delete_archive P archivePath) w)) =
       snd (unlinkFile P archivePath
          (sys (snd (restore_download P cacheFile archivePath compressionMethod primaryKey w))))
   \<and> sys (snd (io_finally
          (save_archive P key archiveFolder archivePath cachePaths compressionMethod)
          (delete_archive P archivePath) w)) =
       snd (unlinkFile P archivePath
          (sys (snd (save_archive P key archiveFolder archivePath cachePaths
             compressionMethod w))))
   \<and> fst (restoreCache (P\<lparr>unlinkFile := f\<rparr>) paths primaryKey restoreKeys options w) =
       fst (restoreCache P paths primaryKey restoreKeys options w)
   \<and> fst (saveCache (P\<lparr>unlinkFile := f\<rparr>) paths key w) = fst (saveCache P paths key w)"
proof (intro conjI impI)
  obtain r w' where run: "restoreCache P paths primaryKey restoreKeys options w = (r, w')"
    by (cases "restoreCache P paths primaryKey restoreKeys options w")
  from restoreCache_cleanup [OF run] obtain evs ms where
    ext: "calls w' = calls w @ evs" "messages w' = messages w @ ms"
    and fin: "\<forall>src a u. FsCopyFile src a u \<in> set evs \<longrightarrow>
           (\<exists>u' s0. last evs = UnlinkFile a u'
              \<and> unlinkFile P a s0 = (u', sys w')
              \<and> (\<forall>e. u' = Inl e \<longrightarrow> ms \<noteq> [] \<and>
                    last ms = (Debug, [Lit ''Failed to delete archive: '', Thrown e])))"
    by blast
  assume "FsCopyFile src a u \<in> set (new_calls w
        (snd (restoreCache P paths primaryKey restoreKeys options w)))"
  then have mem: "FsCopyFile src a u \<in> set evs"
    by (simp add: run new_calls_def ext)
  then have "evs \<noteq> []" by auto
  with mem fin show "\<exists>u' s0. last (calls (snd (restoreCache P paths primaryKey restoreKeys options w))) =
              UnlinkFile a u'
         \<and> unlinkFile P a s0 =
              (u', sys (snd (restoreCache P paths primaryKey restoreKeys options w)))
         \<and> (\<forall>e. u' = Inl e \<longrightarrow>
               last (messages (snd (restoreCache P paths primaryKey restoreKeys options w))) =
               (Debug, [Lit ''Failed to delete archive: '', Thrown e]))"
    by (fastforce simp: run ext)
next
  obtain r w' where run: "saveCache P paths key w = (r, w')"
    by (cases "saveCache P paths key w")
  from saveCache_cleanup [OF run] obtain evs ms where
    ext: "calls w' = calls w @ evs" "messages w' = messages w @ ms"
    and fin: "\<forall>f c m u. CreateTar f c m u \<in> set evs \<longrightarrow>
           (\<exists>u' s0. last evs = UnlinkFile (path_join P [f, getCacheFileName P m]) u'
              \<and> unlinkFile P (path_join P [f, getCacheFileName P m]) s0 = (u', sys w')
              \<and> (\<forall>e. u' = Inl e \<longrightarrow> ms \<noteq> [] \<and>
                    last ms = (Debug, [Lit ''Failed to delete archive: '', Thrown e])))"
    by blast
  assume "CreateTar folder cps cm u2 \<in> set (new_calls w (snd (saveCache P paths key w)))"
  then have mem: "CreateTar folder cps cm u2 \<in> set evs"
    by (simp add: run new_calls_def ext)
  then have "evs \<noteq> []" by auto
  with mem fin show "\<exists>u' s0. last (calls (snd (saveCache P paths key w))) =
              UnlinkFile (path_join P [folder, getCacheFileName P cm]) u'
         \<and> unlinkFile P (path_join P [folder, getCacheFileName P cm]) s0 =
              (u', sys (snd (saveCache P paths key w)))
         \<and> (\<forall>e. u' = Inl e \<longrightarrow>
               last (messages (snd (saveCache P paths key w))) =
               (Debug, [Lit ''Failed to delete archive: '', Thrown e]))"
    by (fastforce simp: run ext)
next
  show "sys (snd (io_finally (restore_download P cacheFile archivePath compressionMethod primaryKey)
          (delete_archive P archivePath) w)) =
       snd (unlinkFile P archivePath
          (sys (snd (restore_download P cacheFile archivePath compressionMethod primaryKey w))))"
    by (rule sys_finally_delete)
  show "sys (snd (io_finally
          (save_archive P key archiveFolder archivePath cachePaths compressionMethod)
          (delete_archive P archivePath) w)) =
       snd (unlinkFile P archivePath
          (sys (snd (save_archive P key archiveFolder archivePath cachePaths
             compressionMethod w))))"
    by (rule sys_finally_delete)
  show "fst (restoreCache (P\<lparr>unlinkFile := f\<rparr>) paths primaryKey restoreKeys options w) =
       fst (restoreCache P paths primaryKey restoreKeys options w)"
    by (rule restoreCache_unlinkFile_update)
  show "fst (saveCache (P\<lparr>unlinkFile := f\<rparr>) paths key w) = fst (saveCache P paths key w)"
    by (rule saveCache_unlinkFile_update)
qed

text \<open>
  On the platform in memory: the archive is there when its size is read and is gone
  from the state at the end of the restore and of the save. When \<open>unlinkFile\<close> fails the
  archive stays, the failure is the last debug line, and the results are the same.
\<close>

theorem archive_deleted_on_every_path_witness:
  "FsCopyFile ''/cache/o/r/main/v1'' ''/tmp/a/cache.tgz'' (Inr ())
     \<in> set (new_calls (mem_world runner_env [(''/cache/o/r/main/v1'', 5)])
          (snd (restoreCache (mem_platform 100) [''dist''] ''v1'' None None
             (mem_world runner_env [(''/cache/o/r/main/v1'', 5)]))))
   \<and> GetArchiveFileSizeInBytes ''/tmp/a/cache.tgz'' (Inr 5)
     \<in> set (calls (snd (restoreCache (mem_platform 100) [''dist''] ''v1'' None None
             (mem_world runner_env [(''/cache/o/r/main/v1'', 5)]))))
   \<and> last (calls (snd (restoreCache (mem_platform 100) [''dist''] ''v1'' None None
             (mem_world runner_env [(''/cache/o/r/main/v1'', 5)])))) =
       UnlinkFile ''/tmp/a/cache.tgz'' (Inr ())
   \<and> map_of (sys (snd (restoreCache (mem_platform 100) [''dist''] ''v1'' None None
             (mem_world runner_env [(''/cache/o/r/main/v1'', 5)])))) ''/tmp/a/cache.tgz'' = None
   \<and> CreateTar ''/tmp/a'' [''dist''] ''gzip'' (Inr ())
     \<in> set (new_calls (mem_world runner_env [(''/cache/o/r/main/v1'', 5)])
          (snd (saveCache (mem_platform 100) [''dist''] ''v1''
             (mem_world runner_env [(''/cache/o/r/main/v1'', 5)]))))
   \<and> GetArchiveFileSizeInBytes ''/tmp/a/cache.tgz'' (Inr 100)
     \<in> set (calls (snd (saveCache (mem_platform 100) [''dist''] ''v1''
             (mem_world runner_env [(''/cache/o/r/main/v1'', 5)]))))
   \<and> last (calls (snd (saveCache (mem_platform 100) [''dist''] ''v1''
             (mem_world runner_env [(''/cache/o/r/main/v1'', 5)])))) =
       UnlinkFile ''/tmp/a/cache.tgz'' (Inr ())
   \<and> map_of (sys (snd (saveCache (mem_platform 100) [''dist''] ''v1''
             (mem_world runner_env [(''/cache/o/r/main/v1'', 5)])))) ''/tmp/a/cache.tgz'' = None
   \<and> fst (restoreCache ((mem_platform 100)\<lparr>unlinkFile := \<lambda>a s. (Inl EACCES, s)\<rparr>)
           [''dist''] ''v1'' None None
           (mem_world runner_env [(''/cache/o/r/main/v1'', 5)])) = Inr (Some ''v1'')
   \<and> fst (saveCache ((mem_platform 100)\<lparr>unlinkFile := \<lambda>a s. (Inl EACCES, s)\<rparr>)
           [''dist''] ''v1''
           (mem_world runner_env [(''/cache/o/r/main/v1'', 5)])) = Inr 1
   \<and> last (calls (snd (restoreCache
           ((mem_platform 100)\<lparr>unlinkFile := \<lambda>a s. (Inl EACCES, s)\<rparr>)
           [''dist''] ''v1'' None None
           (mem_world runner_env [(''/cache/o/r/main/v1'', 5)])))) =
       UnlinkFile ''/tmp/a/cache.tgz'' (Inl EACCES)
   \<and> last (messages (snd (restoreCache
           ((mem_platform 100)\<lparr>unlinkFile := \<lambda>a s. (Inl EACCES, s)\<rparr>)
           [''dist''] ''v1'' None None
           (mem_world runner_env [(''/cache/o/r/main/v1'', 5)])))) =
       (Debug, [Lit ''Failed to delete archive: '', Thrown EACCES])
   \<and> map_of (sys (snd (restoreCache
           ((mem_platform 100)\<lparr>unlinkFile := \<lambda>a s. (Inl EACCES, s)\<rparr>)
           [''dist''] ''v1'' None None
           (mem_world runner_env [(''/cache/o/r/main/v1'', 5)])))) ''/tmp/a/cache.tgz'' = Some 5"
proof -
  have start: "calls (mem_world runner_env [(''/cache/o/r/main/v1'', 5)]) = []"
    by (simp add: mem_world_def)
  have archive: "path_join (mem_platform 100)
      [''/tmp/a'', getCacheFileName (mem_platform 100) ''gzip''] = ''/tmp/a/cache.tgz''"
    by (simp add: mem_platform_def mem_path_join_def)
  have restore_calls:
    "calls (snd (restoreCache (mem_platform 100) [''dist''] ''v1'' None None
       (mem_world runner_env [(''/cache/o/r/main/v1'', 5)]))) =
     [FsStat ''/cache/o/r/main/v1'' (Inr \<lparr>isFile = True, stat_size = 5\<rparr>),
      GetCompressionMethod (Inr ''gzip''), CreateTempDirectory (Inr ''/tmp/a''),
      FsCopyFile ''/cache/o/r/main/v1'' ''/tmp/a/cache.tgz'' (Inr ()),
      GetArchiveFileSizeInBytes ''/tmp/a/cache.tgz'' (Inr 5),
      ExtractTar ''/tmp/a/cache.tgz'' ''gzip'' (Inr ()),
      UnlinkFile ''/tmp/a/cache.tgz'' (Inr ())]"
    by (simp add: prog_defs io_defs call_defs mem_defs)
  have restore_sys:
    "sys (snd (restoreCache (mem_platform 100) [''dist''] ''v1'' None None
       (mem_world runner_env [(''/cache/o/r/main/v1'', 5)]))) = [(''/cache/o/r/main/v1'', 5)]"
    by (simp add: prog_defs io_defs call_defs mem_defs)
  have restore_fst:
    "fst (restoreCache (mem_platform 100) [''dist''] ''v1'' None None
       (mem_world runner_env [(''/cache/o/r/main/v1'', 5)])) = Inr (Some ''v1'')"
    by (simp add: prog_defs io_defs call_defs mem_defs)
  have save_calls:
    "calls (snd (saveCache (mem_platform 100) [''dist''] ''v1''
       (mem_world runner_env [(''/cache/o/r/main/v1'', 5)]))) =
     [GetCompressionMethod (Inr ''gzip''), ResolvePaths [''dist''] (Inr [''dist'']),
      CreateTempDirectory (Inr ''/tmp/a''),
      CreateTar ''/tmp/a'' [''dist''] ''gzip'' (Inr ()),
      GetArchiveFileSizeInBytes ''/tmp/a/cache.tgz'' (Inr 100),
      FsMkdir ''/cache/o/r/main'' (Inr None),
      FsCopyFile ''/tmp/a/cache.tgz'' ''/cache/o/r/main/v1'' (Inr ()),
      UnlinkFile ''/tmp/a/cache.tgz'' (Inr ())]"
    by (simp add: prog_defs io_defs call_defs mem_defs)
  have save_sys:
    "sys (snd (saveCache (mem_platform 100) [''dist''] ''v1''
       (mem_world runner_env [(''/cache/o/r/main/v1'', 5)]))) =
     [(''/cache/o/r/main/v1'', 100), (''/cache/o/r/main/v1'', 5)]"
    by (simp add: prog_defs io_defs call_defs mem_defs)
  have save_fst:
    "fst (saveCache (mem_platform 100) [''dist''] ''v1''
       (mem_world runner_env [(''/cache/o/r/main/v1'', 5)])) = Inr 1"
    by (simp add: prog_defs io_defs call_defs mem_defs)
  have failed_calls:
    "calls (snd (restoreCache ((mem_platform 100)\<lparr>unlinkFile := \<lambda>a s. (Inl EACCES, s)\<rparr>)
       [''dist''] ''v1'' None None
       (mem_world runner_env [(''/cache/o/r/main/v1'', 5)]))) =
     [FsStat ''/cache/o/r/main/v1'' (Inr \<lparr>isFile = True, stat_size = 5\<rparr>),
      GetCompressionMethod (Inr ''gzip''), CreateTempDirectory (Inr ''/tmp/a''),
      FsCopyFile ''/cache/o/r/main/v1'' ''/tmp/a/cache.tgz'' (Inr ()),
      GetArchiveFileSizeInBytes ''/tmp/a/cache.tgz'' (Inr 5),
      ExtractTar ''/tmp/a/cache.tgz'' ''gzip'' (Inr ()),
      UnlinkFile ''/tmp/a/cache.tgz'' (Inl EACCES)]"
    by (simp add: prog_defs io_defs call_defs mem_defs)
  have failed_sys:
    "sys (snd (restoreCache ((mem_platform 100)\<lparr>unlinkFile := \<lambda>a s. (Inl EACCES, s)\<rparr>)
       [''dist''] ''v1'' None None
       (mem_world runner_env [(''/cache/o/r/main/v1'', 5)]))) =
     [(''/tmp/a/cache.tgz'', 5), (''/cache/o/r/main/v1'', 5)]"
    by (simp add: prog_defs io_defs call_defs mem_defs)
  show ?thesis
    using
      archive_deleted_on_every_path [where P = "mem_platform 100"
        and w = "mem_world runner_env [(''/cache/o/r/main/v1'', 5)]"
        and paths = "[''dist'']" and primaryKey = "''v1''" and restoreKeys = None
        and options = None and key = "''v1''"
        and src = "''/cache/o/r/main/v1''" and a = "''/tmp/a/cache.tgz''" and u = "Inr ()"
        and folder = "''/tmp/a''" and cps = "[''dist'']" and cm = "''gzip''" and ?u2.0 = "Inr ()"
        and cacheFile = "''/cache/o/r/main/v1''" and archivePath = "''/tmp/a/cache.tgz''"
        and compressionMethod = "''gzip''" and archiveFolder = "''/tmp/a''"
        and cachePaths = "[''dist'']"
        and f = "\<lambda>a s. (Inl EACCES, s)"]
      archive_deleted_on_every_path [where
        P = "(mem_platform 100)\<lparr>unlinkFile := \<lambda>a s. (Inl EACCES, s)\<rparr>"
        and w = "mem_world runner_env [(''/cache/o/r/main/v1'', 5)]"
        and paths = "[''dist'']" and primaryKey = "''v1''" and restoreKeys = None
        and options = None and key = "''v1''"
        and src = "''/cache/o/r/main/v1''" and a = "''/tmp/a/cache.tgz''" and u = "Inr ()"
        and folder = "''/tmp/a''" and cps = "[''dist'']" and cm = "''gzip''" and ?u2.0 = "Inr ()"
        and cacheFile = "''/cache/o/r/main/v1''" and archivePath = "''/tmp/a/cache.tgz''"
        and compressionMethod = "''gzip''" and archiveFolder = "''/tmp/a''"
        and cachePaths = "[''dist'']"
        and f = "\<lambda>a s. (Inr (), s)"]
    by (simp add: start archive restore_calls restore_sys restore_fst save_calls save_sys
        save_fst failed_calls failed_sys new_calls_def)
qed

text \<open>
  C9. The empty string passes \<open>checkKey\<close>. A restore with the empty primary key, valid
  paths and restore keys and a configured store goes on to ask the store about the
  address joined from the location and the empty key. A save with the empty key and
  some paths goes on to the packaging, and every call it makes on the store is at the
  address joined from the location and the empty key.
\<close>

theorem empty_key_is_accepted:
  "checkKey [] w = (Inr (), w)
   \<and> (paths \<noteq> [] \<and> length (or_empty restoreKeys) \<le> 9
        \<and> (\<forall>k \<in> set (or_empty restoreKeys). length k \<le> 512 \<and> CHR '','' \<notin> set k)
        \<and> fst (getArchiveLocation P w) = Inr (Some loc) \<and> loc \<noteq> [] \<longrightarrow>
        (\<exists>rest. new_calls w (snd (restoreCache P paths [] restoreKeys options w)) =
           FsStat (path_join P [loc, []]) (fs_stat P (path_join P [loc, []]) (sys w)) # rest))
   \<and> (paths \<noteq> [] \<longrightarrow>
        (\<exists>u rest. new_calls w (snd (saveCache P paths [] w)) = GetCompressionMethod u # rest))
   \<and> (\<forall>c \<in> set (new_calls w (snd (saveCache P paths [] w))). is_store_call c \<longrightarrow>
        (\<exists>loc. fst (getArchiveLocation P w) = Inr (Some loc) \<and> loc \<noteq> []
           \<and> store_write_at (path_dirname P (path_join P [loc, []])) (path_join P [loc, []]) c))"
proof (intro conjI impI)
  show "checkKey [] w = (Inr (), w)"
    by (simp add: checkKey_ok)
next
  assume a: "paths \<noteq> [] \<and> length (or_empty restoreKeys) \<le> 9
        \<and> (\<forall>k \<in> set (or_empty restoreKeys). length k \<le> 512 \<and> CHR '','' \<notin> set k)
        \<and> fst (getArchiveLocation P w) = Inr (Some loc) \<and> loc \<noteq> []"
  obtain r w' where run: "restoreCache P paths [] restoreKeys options w = (r, w')"
    by (cases "restoreCache P paths [] restoreKeys options w")
  from a have "\<forall>k \<in> set ([] # or_empty restoreKeys). length k \<le> 512 \<and> CHR '','' \<notin> set k"
    by simp
  with a run have "\<exists>rest. calls w' = calls w @
     FsStat (path_join P [loc, []]) (fs_stat P (path_join P [loc, []]) (sys w)) # rest"
    by (intro restoreCache_probes_primary [where paths = paths and restoreKeys = restoreKeys
          and options = options and r = r]) simp_all
  then show "\<exists>rest. new_calls w (snd (restoreCache P paths [] restoreKeys options w)) =
           FsStat (path_join P [loc, []]) (fs_stat P (path_join P [loc, []]) (sys w)) # rest"
    by (auto simp: run new_calls_def)
next
  assume p: "paths \<noteq> []"
  obtain r w' where run: "saveCache P paths [] w = (r, w')"
    by (cases "saveCache P paths [] w")
  from saveCache_reaches_packaging [OF p _ _ run]
  have "\<exists>u rest. calls w' = calls w @ GetCompressionMethod u # rest" by simp
  then show "\<exists>u rest. new_calls w (snd (saveCache P paths [] w)) = GetCompressionMethod u # rest"
    by (auto simp: run new_calls_def)
next
  obtain r w' where run: "saveCache P paths [] w = (r, w')"
    by (cases "saveCache P paths [] w")
  from saveCache_store [OF run] obtain evs where
    ext: "calls w' = calls w @ evs"
    and st: "\<forall>c \<in> set evs. is_store_call c \<longrightarrow>
           (\<exists>loc. fst (getArchiveLocation P w) = Inr (Some loc) \<and> loc \<noteq> []
             \<and> store_write_at (path_dirname P (path_join P [loc, []])) (path_join P [loc, []]) c)"
    by blast
  have "new_calls w w' = evs" by (simp add: new_calls_def ext)
  with st show "\<forall>c \<in> set (new_calls w (snd (saveCache P paths [] w))). is_store_call c \<longrightarrow>
        (\<exists>loc. fst (getArchiveLocation P w) = Inr (Some loc) \<and> loc \<noteq> []
           \<and> store_write_at (path_dirname P (path_join P [loc, []])) (path_join P [loc, []]) c)"
    by (simp add: run)
qed

theorem empty_key_is_accepted_witness:
  "fst (getArchiveLocation (mem_platform 100) (mem_world runner_env [])) =
     Inr (Some ''/cache/o/r/main'')
   \<and> new_calls (mem_world runner_env [])
       (snd (restoreCache (mem_platform 100) [''dist''] [] None None (mem_world runner_env []))) =
     [FsStat ''/cache/o/r/main'' (Inl ENOENT)]
   \<and> new_calls (mem_world runner_env [])
       (snd (saveCache (mem_platform 100) [''dist''] [] (mem_world runner_env []))) =
     [GetCompressionMethod (Inr ''gzip''), ResolvePaths [''dist''] (Inr [''dist'']),
      CreateTempDirectory (Inr ''/tmp/a''),
      CreateTar ''/tmp/a'' [''dist''] ''gzip'' (Inr ()),
      GetArchiveFileSizeInBytes ''/tmp/a/cache.tgz'' (Inr 100),
      FsMkdir ''/cache/o/r'' (Inr None),
      FsCopyFile ''/tmp/a/cache.tgz'' ''/cache/o/r/main'' (Inr ()),
      UnlinkFile ''/tmp/a/cache.tgz'' (Inr ())]
   \<and> list_all (store_write_at ''/cache/o/r'' ''/cache/o/r/main'')
       (filter is_store_call (new_calls (mem_world runner_env [])
          (snd (saveCache (mem_platform 100) [''dist''] [] (mem_world runner_env [])))))"
  using empty_key_is_accepted [where w = "mem_world runner_env []" and P = "mem_platform 100"
      and paths = "[''dist'']" and restoreKeys = None and options = None
      and loc = "''/cache/o/r/main''"]
  by (simp add: prog_defs io_defs call_defs mem_defs)

text \<open>
  C10, as stated. The claim: \<open>isFeatureAvailable\<close> is true exactly when the location of
  the store is defined, and when it is false every restore returns no result. With
  \<^verbatim>\<open>GHRUNNER_CACHE\<close> set and \<^verbatim>\<open>GITHUB_REPOSITORY\<close> unset, \<open>isFeatureAvailable\<close> is true
  and \<open>getArchiveLocation\<close> throws the \<^verbatim>\<open>TypeError\<close> of \<^verbatim>\<open>path.join\<close>. With
  \<^verbatim>\<open>GHRUNNER_CACHE\<close> unset, a restore with no paths throws a \<open>ValidationError\<close>.
\<close>

theorem isFeatureAvailable_counterexample:
  "isFeatureAvailable (mem_world [(''GHRUNNER_CACHE'', ''/cache'')] [])
   \<and> fst (getArchiveLocation (mem_platform 100)
         (mem_world [(''GHRUNNER_CACHE'', ''/cache'')] [])) = Inl path_TypeError
   \<and> \<not> isFeatureAvailable (mem_world [] [])
   \<and> fst (restoreCache (mem_platform 100) [] ''v1'' None None (mem_world [] [])) =
       Inl (ValidationError
          [Lit ''Path Validation Error: At least one directory or file path is required''])"
  by (simp add: prog_defs io_defs call_defs mem_defs)

text \<open>
  C10, as the code has it. \<open>isFeatureAvailable\<close> is false exactly when
  \<open>getArchiveLocation\<close> returns \<^verbatim>\<open>undefined\<close>: both test \<^verbatim>\<open>GHRUNNER_CACHE\<close> only. When it
  is true, \<open>getArchiveLocation\<close> returns the joined location if \<^verbatim>\<open>GITHUB_REPOSITORY\<close> and
  \<^verbatim>\<open>GITHUB_REF_NAME\<close> are set, and throws the \<^verbatim>\<open>TypeError\<close> otherwise. When it is false,
  every restore with valid paths and keys returns \<^verbatim>\<open>undefined\<close> and every save makes no
  call on the store.
\<close>

theorem isFeatureAvailable_iff_location:
  "(\<not> isFeatureAvailable w \<longleftrightarrow> fst (getArchiveLocation P w) = Inr None)
   \<and> (isFeatureAvailable w \<and> env w ''GITHUB_REPOSITORY'' = Some repo
        \<and> env w ''GITHUB_REF_NAME'' = Some ref \<longrightarrow>
        (\<exists>top. env w ''GHRUNNER_CACHE'' = Some top \<and> top \<noteq> []
           \<and> fst (getArchiveLocation P w) = Inr (Some (path_join P [top, repo, ref]))))
   \<and> (isFeatureAvailable w \<and> (env w ''GITHUB_REPOSITORY'' = None
        \<or> env w ''GITHUB_REF_NAME'' = None) \<longrightarrow>
        fst (getArchiveLocation P w) = Inl path_TypeError)
   \<and> (\<not> isFeatureAvailable w \<and> paths \<noteq> [] \<and> length (primaryKey # or_empty restoreKeys) \<le> 10
        \<and> (\<forall>k \<in> set (primaryKey # or_empty restoreKeys). length k \<le> 512 \<and> CHR '','' \<notin> set k)
        \<longrightarrow> fst (restoreCache P paths primaryKey restoreKeys options w) = Inr None)
   \<and> (\<not> isFeatureAvailable w \<longrightarrow>
        (\<forall>c \<in> set (new_calls w (snd (saveCache P paths key w))). \<not> is_store_call c))"
proof (intro conjI impI)
  show "(\<not> isFeatureAvailable w) = (fst (getArchiveLocation P w) = Inr None)"
    by (simp add: isFeatureAvailable_def getArchiveLocation_None_iff)
next
  assume "isFeatureAvailable w \<and> env w ''GITHUB_REPOSITORY'' = Some repo
        \<and> env w ''GITHUB_REF_NAME'' = Some ref"
  then show "\<exists>top. env w ''GHRUNNER_CACHE'' = Some top \<and> top \<noteq> []
           \<and> fst (getArchiveLocation P w) = Inr (Some (path_join P [top, repo, ref]))"
    by (cases "env w ''GHRUNNER_CACHE''")
      (auto simp: isFeatureAvailable_def getArchiveLocation_def io_defs path_join_io_def)
next
  assume "isFeatureAvailable w \<and> (env w ''GITHUB_REPOSITORY'' = None
        \<or> env w ''GITHUB_REF_NAME'' = None)"
  then show "fst (getArchiveLocation P w) = Inl path_TypeError"
    by (auto simp: isFeatureAvailable_def getArchiveLocation_def io_defs path_join_io_def)
next
  assume a: "\<not> isFeatureAvailable w \<and> paths \<noteq> []
        \<and> length (primaryKey # or_empty restoreKeys) \<le> 10
        \<and> (\<forall>k \<in> set (primaryKey # or_empty restoreKeys). length k \<le> 512 \<and> CHR '','' \<notin> set k)"
  then have unset: "falsy (env w ''GHRUNNER_CACHE'')" by (simp add: isFeatureAvailable_def)
  from a have valid: "paths \<noteq> []" "length (primaryKey # or_empty restoreKeys) \<le> 10"
    "\<forall>k \<in> set (primaryKey # or_empty restoreKeys). length k \<le> 512 \<and> CHR '','' \<notin> set k"
    by simp_all
  show "fst (restoreCache P paths primaryKey restoreKeys options w) = Inr None"
    by (simp only: restoreCache_unavailable_valid [OF unset valid] fst_conv)
next
  assume "\<not> isFeatureAvailable w"
  then have "falsy (env w ''GHRUNNER_CACHE'')" by (simp add: isFeatureAvailable_def)
  then show "\<forall>c \<in> set (new_calls w (snd (saveCache P paths key w))). \<not> is_store_call c"
    by (rule saveCache_unavailable_no_store)
qed

theorem isFeatureAvailable_iff_location_witness:
  "isFeatureAvailable (mem_world runner_env [])
   \<and> fst (getArchiveLocation (mem_platform 100) (mem_world runner_env [])) =
       Inr (Some ''/cache/o/r/main'')
   \<and> isFeatureAvailable (mem_world [(''GHRUNNER_CACHE'', ''/cache'')] [])
   \<and> fst (getArchiveLocation (mem_platform 100)
         (mem_world [(''GHRUNNER_CACHE'', ''/cache'')] [])) = Inl path_TypeError
   \<and> \<not> isFeatureAvailable (mem_world [(''GHRUNNER_CACHE'', '''')] [(''/cache/o/r/main/v1'', 5)])
   \<and> fst (getArchiveLocation (mem_platform 100)
         (mem_world [(''GHRUNNER_CACHE'', '''')] [(''/cache/o/r/main/v1'', 5)])) = Inr None
   \<and> fst (restoreCache (mem_platform 100) [''dist''] ''v1'' (Some [''v1-'']) None
         (mem_world [(''GHRUNNER_CACHE'', '''')] [(''/cache/o/r/main/v1'', 5)])) = Inr None
   \<and> filter is_store_call
        (new_calls (mem_world [(''GHRUNNER_CACHE'', '''')] [(''/cache/o/r/main/v1'', 5)])
          (snd (saveCache (mem_platform 100) [''dist''] ''v1''
             (mem_world [(''GHRUNNER_CACHE'', '''')] [(''/cache/o/r/main/v1'', 5)])))) = []"
  using
    isFeatureAvailable_iff_location [of "mem_world runner_env []" "mem_platform 100"
      "''o/r''" "''main''" "[''dist'']" "''v1''" "Some [''v1-'']" None "''v1''"]
    isFeatureAvailable_iff_location [of "mem_world [(''GHRUNNER_CACHE'', ''/cache'')] []"
      "mem_platform 100" "''o/r''" "''main''" "[''dist'']" "''v1''" "Some [''v1-'']" None "''v1''"]
    isFeatureAvailable_iff_location [of
      "mem_world [(''GHRUNNER_CACHE'', '''')] [(''/cache/o/r/main/v1'', 5)]"
      "mem_platform 100" "''o/r''" "''main''" "[''dist'']" "''v1''" "Some [''v1-'']" None "''v1''"]
  by (simp add: isFeatureAvailable_def mem_defs filter_empty_conv)

end
